theory Spec2Isabelle
  imports Complex_Main "HOL-Library.Word"
begin

section \<open>JavaScript strings\<close>

text \<open>
  The front end is TypeScript. A JavaScript string is a sequence of UTF-16 code units, and
  \<open>length\<close>, \<open>substring\<close>, \<open>trim\<close> and the regular expressions of the source all count
  code units, so a string is a list of 16-bit words. \<open>js\<close> embeds an ASCII literal.
\<close>

type_synonym jsstring = "16 word list"

definition js :: "string \<Rightarrow> jsstring" where
  "js s = map of_char s"

text \<open>
  \<open>String.prototype.trim\<close> strips the code units of the ECMAScript productions
  WhiteSpace (TAB, VT, FF, SP, NBSP, ZWNBSP and the category Zs) and LineTerminator
  (LF, CR, LS, PS) from both ends.
\<close>

definition isWhiteSpace :: "16 word \<Rightarrow> bool" where
  "isWhiteSpace c \<longleftrightarrow>
     c = 0x0009 \<or> c = 0x000A \<or> c = 0x000B \<or> c = 0x000C \<or> c = 0x000D \<or> c = 0x0020 \<or>
     c = 0x00A0 \<or> c = 0x1680 \<or> (0x2000 \<le> c \<and> c \<le> 0x200A) \<or> c = 0x2028 \<or>
     c = 0x2029 \<or> c = 0x202F \<or> c = 0x205F \<or> c = 0x3000 \<or> c = 0xFEFF"

definition trim :: "jsstring \<Rightarrow> jsstring" where
  "trim s = rev (dropWhile isWhiteSpace (rev (dropWhile isWhiteSpace s)))"

section \<open>The clone form: \<open>handleSubmit\<close>\<close>

text \<open>
  \<open>CloneForm.handleSubmit\<close> (both variants) and \<open>UrlForm.handleSubmit\<close> are the same code:
  \<^verbatim>\<open>
    e.preventDefault()
    if (!url.trim()) return
    let formattedUrl = url.trim()
    if (!/^https?:\/\//i.test(formattedUrl)) { formattedUrl = `https://${formattedUrl}` }
    await onSubmit(formattedUrl)
  \<close>
  The regular expression has the flag \<open>i\<close> and not \<open>u\<close>: two code units match when
  their Canonicalize images agree, where Canonicalize upper-cases a code unit unless that
  would take a code unit from 128 or above to one below 128. Every character of the pattern
  is ASCII, so only the ASCII part of the upper-casing can decide a comparison, and
  \<open>canonicalize\<close> is that part.
\<close>

definition canonicalize :: "16 word \<Rightarrow> 16 word" where
  "canonicalize c = (if 0x61 \<le> c \<and> c \<le> 0x7A then c - 0x20 else c)"

text \<open>Matching a literal run of pattern characters at the head of the input; the rest of
  the input is returned.\<close>

fun match_lit :: "jsstring \<Rightarrow> jsstring \<Rightarrow> jsstring option" where
  "match_lit [] s = Some s"
| "match_lit (p # ps) [] = None"
| "match_lit (p # ps) (c # s) =
     (if canonicalize c = canonicalize p then match_lit ps s else None)"

text \<open>\<open>/^https?:\/\//i.test\<close>: the anchored literal \<open>http\<close>, then the greedy optional
  \<open>s\<close> (with backtracking to the empty match), then \<open>://\<close>.\<close>

definition scheme_test :: "jsstring \<Rightarrow> bool" where
  "scheme_test s =
     (case match_lit (js ''http'') s of
        None \<Rightarrow> False
      | Some r \<Rightarrow>
          (case match_lit (js ''s'') r of
             Some r' \<Rightarrow> match_lit (js ''://'') r' \<noteq> None \<or> match_lit (js ''://'') r \<noteq> None
           | None \<Rightarrow> match_lit (js ''://'') r \<noteq> None))"

text \<open>What one run of the handler did: whether the event's default was prevented, and the
  arguments of the calls to \<open>onSubmit\<close>, in order.\<close>

record submit_outcome =
  defaultPrevented :: bool
  onSubmitCalls :: "jsstring list"

definition handleSubmit :: "jsstring \<Rightarrow> submit_outcome" where
  "handleSubmit url =
     (if trim url = [] then \<lparr>defaultPrevented = True, onSubmitCalls = []\<rparr>
      else
        let formattedUrl = trim url;
            formattedUrl = (if \<not> scheme_test formattedUrl then js ''https://'' @ formattedUrl
                            else formattedUrl)
        in \<lparr>defaultPrevented = True, onSubmitCalls = [formattedUrl]\<rparr>)"

text \<open>The claim's wording, "begins with \<open>p\<close>, case-insensitively": the first
  \<open>length p\<close> code units agree with \<open>p\<close> up to ASCII letter case.\<close>

definition starts_with_ci :: "jsstring \<Rightarrow> jsstring \<Rightarrow> bool" where
  "starts_with_ci p s \<longleftrightarrow>
     length p \<le> length s \<and> map canonicalize (take (length p) s) = map canonicalize p"

section \<open>Thrown values and template literals\<close>

text \<open>
  JavaScript can throw any value. The handlers below only ask whether the value is an
  \<open>Error\<close> (and then read its \<open>message\<close>), so a thrown value is one of the two.
\<close>

datatype thrown = ErrorObj jsstring | NonError

text \<open>\<open>err instanceof Error ? err.message : dflt\<close>\<close>

definition error_message :: "thrown \<Rightarrow> jsstring \<Rightarrow> jsstring" where
  "error_message err dflt = (case err of ErrorObj message \<Rightarrow> message | NonError \<Rightarrow> dflt)"

text \<open>A non-negative integer inside a template literal: its decimal digits.\<close>

fun number_to_string :: "nat \<Rightarrow> jsstring" where
  "number_to_string n =
     (if n < 10 then [0x30 + of_nat n]
      else number_to_string (n div 10) @ [0x30 + of_nat (n mod 10)])"

section \<open>The Home page: \<open>handleClone\<close>\<close>

text \<open>
  The response type is declared in \<open>lib/types\<close>, which is not among the sources; the
  fields are the ones \<open>CloneResult\<close> reads (\<open>result.clone_html?.length\<close>,
  \<open>result.images?.length\<close>), either of which may be missing at run time.
\<close>

record CloneResponse =
  clone_html :: "jsstring option"
  images :: "jsstring list option"

text \<open>The four \<open>useState\<close> cells of \<open>Home\<close>; \<open>None\<close> is \<open>null\<close>.\<close>

record home_state =
  cloneResult :: "CloneResponse option"
  isLoading :: bool
  error :: "jsstring option"
  originalUrl :: jsstring

text \<open>
  \<^verbatim>\<open>
    setIsLoading(true); setError(null); setCloneResult(null); setOriginalUrl(url)
    try { const result = await cloneWebsite(url); setCloneResult(result) }
    catch (err) { setError(err instanceof Error ? err.message : "Failed to clone website") }
    finally { setIsLoading(false) }
  \<close>
  \<open>cloneWebsite\<close> (\<open>lib/api\<close>) is a parameter: what the awaited promise settles to,
  \<open>Inl\<close> for a rejection. A run whose promise never settles does not complete and has
  no final state.
\<close>

definition handleClone ::
  "(jsstring \<Rightarrow> thrown + CloneResponse) \<Rightarrow> jsstring \<Rightarrow> home_state \<Rightarrow> home_state" where
  "handleClone cloneWebsite url s =
     (let s = s\<lparr>isLoading := True\<rparr>;
          s = s\<lparr>error := None\<rparr>;
          s = s\<lparr>cloneResult := None\<rparr>;
          s = s\<lparr>originalUrl := url\<rparr>;
          s = (case cloneWebsite url of
                 Inr result \<Rightarrow> s\<lparr>cloneResult := Some result\<rparr>
               | Inl err \<Rightarrow>
                   s\<lparr>error := Some (error_message err (js ''Failed to clone website''))\<rparr>)
      in s\<lparr>isLoading := False\<rparr>)"

section \<open>The API route: \<open>POST /api/clone/stream\<close>\<close>

text \<open>
  A JSON value as the handler holds it after \<open>request.json()\<close> or \<open>response.json()\<close>.
  A number is a double: \<open>JNum\<close> is a finite one, as the real it denotes, and
  \<open>JInfinity\<close> is one of the two infinities, which a literal beyond the double range
  such as \<open>1e999\<close> parses to (\<open>True\<close> for the negative one). An object is the list of
  its own properties in enumeration order.
\<close>

datatype json =
  JNull | JBool bool | JNum real | JInfinity bool | JStr jsstring | JArr "json list"
  | JObj "(jsstring \<times> json) list"

text \<open>
  Reading a property (\<open>const { url } = body\<close>, \<open>errorData.detail\<close>): a \<open>TypeError\<close> on
  \<open>null\<close>; on an object the value of the key (should a key be listed twice, the later
  entry stands, as in \<open>JSON.parse\<close>); \<open>undefined\<close>, here \<open>None\<close>, on a missing key and
  on booleans, numbers, strings and arrays, whose prototypes have neither property.
\<close>

fun get_property :: "json \<Rightarrow> jsstring \<Rightarrow> thrown + json option" where
  "get_property JNull k = Inl (ErrorObj (js ''Cannot read properties of null''))"
| "get_property (JObj kvs) k = Inr (map_of (rev kvs) k)"
| "get_property v k = Inr None"

text \<open>JavaScript truthiness of a JSON value or \<open>undefined\<close>.\<close>

fun truthy :: "json option \<Rightarrow> bool" where
  "truthy None = False"
| "truthy (Some JNull) = False"
| "truthy (Some (JBool b)) = b"
| "truthy (Some (JNum x)) = (x \<noteq> 0)"
| "truthy (Some (JInfinity negative)) = True"
| "truthy (Some (JStr s)) = (s \<noteq> [])"
| "truthy (Some (JArr xs)) = True"
| "truthy (Some (JObj kvs)) = True"

text \<open>
  What the recipient of \<open>JSON.stringify(v)\<close> reads back: the value itself, except that
  an infinite number is written as \<open>null\<close>, wherever in the value it stands.
\<close>

primrec stringified :: "json \<Rightarrow> json" where
  "stringified JNull = JNull"
| "stringified (JBool b) = JBool b"
| "stringified (JNum x) = JNum x"
| "stringified (JInfinity negative) = JNull"
| "stringified (JStr s) = JStr s"
| "stringified (JArr xs) = JArr (map stringified xs)"
| "stringified (JObj kvs) = JObj (map (map_prod id stringified) kvs)"

text \<open>What \<open>fetch\<close> resolves to: the status and what \<open>response.json()\<close> settles to.\<close>

record backend_response =
  status :: nat
  json_result :: "thrown + json"

definition ok :: "backend_response \<Rightarrow> bool" where
  "ok r \<longleftrightarrow> 200 \<le> status r \<and> status r \<le> 299"

record next_response =
  response_status :: nat
  response_body :: json

text \<open>
  \<open>NextResponse.json(body, { status })\<close> builds a \<open>Response\<close>, whose constructor throws a
  \<open>RangeError\<close> for a status outside 200..599 and a \<open>TypeError\<close> for a body on a
  null-body status. The body sent is \<open>JSON.stringify(body)\<close>.
\<close>

definition NextResponse_json :: "json \<Rightarrow> nat \<Rightarrow> thrown + next_response" where
  "NextResponse_json body st =
     (if st < 200 \<or> 599 < st then Inl (ErrorObj (js ''init[status] must be in the range of 200 to 599''))
      else if st = 204 \<or> st = 205 \<or> st = 304
        then Inl (ErrorObj (js ''Response with null body status cannot have body''))
      else Inr \<lparr>response_status = st, response_body = stringified body\<rparr>)"

definition error_body :: "json \<Rightarrow> json" where
  "error_body v = JObj [(js ''error'', v)]"

text \<open>
  The body of the \<open>try\<close> block. The request body is what \<open>await request.json()\<close>
  settles to; \<open>fetch\<close> is the backend, taking the forwarded body
  (\<open>JSON.stringify({ url })\<close>). The second component lists the forwarded bodies of the
  fetches issued, in order.
\<close>

definition POST_try ::
  "(thrown + json) \<Rightarrow> (json \<Rightarrow> thrown + backend_response) \<Rightarrow>
   (thrown + next_response) \<times> json list" where
  "POST_try request_json fetch =
     (case request_json of
        Inl e \<Rightarrow> (Inl e, [])
      | Inr body \<Rightarrow>
     (case get_property body (js ''url'') of
        Inl e \<Rightarrow> (Inl e, [])
      | Inr url \<Rightarrow>
     (case url of
        None \<Rightarrow> (NextResponse_json (error_body (JStr (js ''URL is required''))) 400, [])
      | Some u \<Rightarrow>
          if \<not> truthy (Some u)
          then (NextResponse_json (error_body (JStr (js ''URL is required''))) 400, [])
          else
            let sent = stringified (JObj [(js ''url'', u)]) in
            (case fetch sent of
               Inl e \<Rightarrow> (Inl e, [sent])
             | Inr response \<Rightarrow>
                 if \<not> ok response then
                   (case json_result response of
                      Inl e \<Rightarrow> (Inl e, [sent])
                    | Inr errorData \<Rightarrow>
                        (case get_property errorData (js ''detail'') of
                           Inl e \<Rightarrow> (Inl e, [sent])
                         | Inr detail \<Rightarrow>
                             (NextResponse_json
                                (error_body
                                  (case detail of
                                     None \<Rightarrow> JStr (js ''Failed to clone website'')
                                   | Some d \<Rightarrow>
                                       if truthy (Some d) then d
                                       else JStr (js ''Failed to clone website'')))
                                (status response), [sent])))
                 else
                   (case json_result response of
                      Inl e \<Rightarrow> (Inl e, [sent])
                    | Inr data \<Rightarrow> (NextResponse_json data 200, [sent]))))))"

text \<open>The handler: the \<open>catch\<close> clause turns every exception into the 500 response.\<close>

definition internal_server_error :: next_response where
  "internal_server_error =
     \<lparr>response_status = 500, response_body = error_body (JStr (js ''Internal server error''))\<rparr>"

definition POST ::
  "(thrown + json) \<Rightarrow> (json \<Rightarrow> thrown + backend_response) \<Rightarrow> next_response \<times> json list" where
  "POST request_json fetch =
     (case POST_try request_json fetch of
        (Inr r, fetched) \<Rightarrow> (r, fetched)
      | (Inl e, fetched) \<Rightarrow> (internal_server_error, fetched))"

text \<open>The claim's "the JSON body lacks a truthy url field": the value has no \<open>url\<close>
  property, or a falsy one.\<close>

definition url_field :: "json \<Rightarrow> json option" where
  "url_field body = (case body of JObj kvs \<Rightarrow> map_of (rev kvs) (js ''url'') | _ \<Rightarrow> None)"

text \<open>A backend that is not reachable: \<open>fetch\<close> rejects.\<close>

definition backend_unreachable :: "json \<Rightarrow> thrown + backend_response" where
  "backend_unreachable sent = Inl (ErrorObj (js ''fetch failed''))"

section \<open>The result view: \<open>CloneResult\<close>\<close>

text \<open>
  The two \<open>useState\<close> cells of \<open>CloneResult\<close>. \<open>processedHtml\<close> is what the preview
  \<open>iframe\<close> shows (\<open>srcDoc={processedHtml}\<close>) and what \<open>handleDownload\<close> saves.
\<close>

record result_view =
  processedHtml :: jsstring
  htmlError :: "jsstring option"

text \<open>\<open>useState<string>("")\<close> and \<open>useState<string | null>(null)\<close>: the state of the first
  render, before the effect has run.\<close>

definition initial_view :: result_view where
  "initial_view = \<lparr>processedHtml = js '''', htmlError = None\<rparr>"




text \<open>Modelled from the spec: whether a text holds another as a run of consecutive
  characters; the validity checks that use it (\<open>isValidHtml\<close> of \<open>lib/utils\<close>, the
  backend's Validator) are missing.\<close>

fun contains :: "'a list \<Rightarrow> 'a list \<Rightarrow> bool" where
  "contains p [] \<longleftrightarrow> p = []"
| "contains p (c # s) \<longleftrightarrow> take (length p) (c # s) = p \<or> contains p s"





subsection \<open>The preview's \<open>onLoad\<close> check\<close>

text \<open>
  The document the \<open>iframe\<close> holds, as a tree of elements (by lower-case local name) and
  text nodes. Comments and attributes play no part in the check.
\<close>

datatype dom_node = TextNode jsstring | Element jsstring "dom_node list"

fun textContent :: "dom_node \<Rightarrow> jsstring" where
  "textContent (TextNode t) = t"
| "textContent (Element tag kids) = concat (map textContent kids)"

text \<open>The elements of a tree in document order.\<close>

fun elements :: "dom_node \<Rightarrow> dom_node list" where
  "elements (TextNode t) = []"
| "elements (Element tag kids) = Element tag kids # concat (map elements kids)"

fun tagName_lower :: "dom_node \<Rightarrow> jsstring" where
  "tagName_lower (TextNode t) = []"
| "tagName_lower (Element tag kids) = tag"

text \<open>\<open>document.body\<close>: the first child of the \<open>html\<close> element that is a \<open>body\<close> or a
  \<open>frameset\<close> element, or \<open>null\<close>.\<close>

definition document_body :: "dom_node \<Rightarrow> dom_node option" where
  "document_body doc =
     (case doc of
        TextNode t \<Rightarrow> None
      | Element tag kids \<Rightarrow>
          if tag = js ''html''
          then find (\<lambda>k. tagName_lower k = js ''body'' \<or> tagName_lower k = js ''frameset'') kids
          else None)"

text \<open>\<open>iframeDoc.body?.textContent || ""\<close>\<close>

definition bodyText :: "dom_node \<Rightarrow> jsstring" where
  "bodyText doc = (case document_body doc of None \<Rightarrow> [] | Some b \<Rightarrow> textContent b)"

text \<open>The selector list of \<open>querySelectorAll\<close>.\<close>

definition meaningful_tags :: "jsstring list" where
  "meaningful_tags =
     map js [''p'', ''h1'', ''h2'', ''h3'', ''h4'', ''h5'', ''h6'', ''div'', ''span'', ''img'', ''a'',
             ''button'', ''nav'', ''main'', ''section'', ''article'']"

definition meaningfulElements :: "dom_node \<Rightarrow> dom_node list" where
  "meaningfulElements doc = filter (\<lambda>el. tagName_lower el \<in> set meaningful_tags) (elements doc)"

text \<open>\<open>el.textContent?.trim() || el.tagName.toLowerCase() === 'img'\<close>\<close>

definition visibleElements :: "dom_node \<Rightarrow> dom_node list" where
  "visibleElements doc =
     filter (\<lambda>el. trim (textContent el) \<noteq> [] \<or> tagName_lower el = js ''img'')
       (meaningfulElements doc)"

definition minimal_content_message :: "nat \<Rightarrow> nat \<Rightarrow> jsstring" where
  "minimal_content_message textLength visibleCount =
     js ''Preview shows minimal content ('' @ number_to_string textLength @
     js '' characters, '' @ number_to_string visibleCount @
     js '' elements). The AI may have generated a mostly empty page. Check the downloaded file for the actual content.''"

text \<open>
  \<^verbatim>\<open>
    if (iframeDoc) {
      ...
      if (bodyText.length < 50 || visibleElements.length < 5) { setHtmlError(`Preview ...`) }
      else { console.log(...) }
    } else { console.log(...) }
  \<close>
  \<open>iframeDoc\<close> is \<open>None\<close> when the frame's document cannot be reached.
\<close>

definition onLoad :: "dom_node option \<Rightarrow> result_view \<Rightarrow> result_view" where
  "onLoad iframeDoc v =
     (case iframeDoc of
        None \<Rightarrow> v
      | Some doc \<Rightarrow>
          if length (bodyText doc) < 50 \<or> length (visibleElements doc) < 5
          then v\<lparr>htmlError :=
                   Some (minimal_content_message (length (bodyText doc))
                          (length (visibleElements doc)))\<rparr>
          else v)"

text \<open>Two small documents to run the check on: a full document whose body is one
  paragraph of text, and one with five short paragraphs and an image.\<close>

definition text_only_page :: dom_node where
  "text_only_page =
     Element (js ''html'')
       [Element (js ''head'') [Element (js ''title'') [TextNode (js ''Notes'')]],
        Element (js ''body'')
          [Element (js ''p'')
             [TextNode (js ''This page holds one single paragraph of plain text and nothing else.'')]]]"

definition six_block_page :: dom_node where
  "six_block_page =
     Element (js ''html'')
       [Element (js ''head'') [],
        Element (js ''body'')
          [Element (js ''h1'') [TextNode (js ''Orchid Gardens'')],
           Element (js ''p'') [TextNode (js ''Opening hours'')],
           Element (js ''p'') [TextNode (js ''Monday to Friday'')],
           Element (js ''img'') [],
           Element (js ''p'') [TextNode (js ''Tickets at the door'')],
           Element (js ''a'') [TextNode (js ''Directions'')]]]"

section \<open>The pipeline: data model\<close>

text \<open>
  The backend (capture, consolidation, prompt assembly, generation, validation) is not
  among the sources: only the front end that calls it is. Its data and operations are
  modelled from the specification, sections 3 to 7. Backend strings are \<open>string\<close>.
\<close>

text \<open>Modelled from the spec: the kind tag of an AssetRef (image, font, stylesheet); the
  backend's declaration is missing.\<close>

datatype asset_kind = Image | Font | Stylesheet

text \<open>Modelled from the spec: AssetRef, a URL plus a kind tag; the backend's declaration
  is missing.\<close>

record AssetRef =
  asset_url :: string
  asset_kind :: asset_kind

text \<open>Modelled from the spec: StyleNode, one rendered element's visual snapshot: tag role,
  text content, resolved style properties in the order captured, asset attachments and the
  owned child nodes (a tree). The advisory geometry is left out; the backend's declaration
  is missing.\<close>

datatype StyleNode =
  StyleNode (node_tag: string) (node_text: string) (node_props: "(string \<times> string) list")
    (node_assets: "AssetRef list") (node_children: "StyleNode list")

text \<open>Modelled from the spec: VisualManifest, the root StyleNode (absent when no element
  of the page is visually significant) plus page title, capture viewport, raw stylesheet
  text blocks and the ordered set of AssetRef; the backend's declaration is missing.\<close>

record VisualManifest =
  manifest_root :: "StyleNode option"
  manifest_title :: string
  manifest_viewport :: "nat \<times> nat"
  manifest_stylesheets :: "string list"
  manifest_assets :: "AssetRef list"

section \<open>The pipeline: Capture Engine\<close>

text \<open>Modelled from the spec: the Capture Engine's failures (section 4.1); the backend's
  declaration is missing.\<close>

datatype capture_error = NavigationError | BlockedError | RenderTimeoutError

text \<open>Modelled from the spec: one element of the rendered DOM as the renderer hands it
  over (section 6, capture boundary): tag, text, computed style, the raw \<open>src\<close>/\<open>href\<close>/
  \<open>url(...)\<close> references met on it with their kinds, rendered width and height,
  whether it is \<open>display:none\<close>, and its children; the backend's declaration is
  missing.\<close>

datatype rendered =
  Rendered (r_tag: string) (r_text: string) (r_style: "(string \<times> string) list")
    (r_refs: "(asset_kind \<times> string) list") (r_width: nat) (r_height: nat)
    (r_display_none: bool) (r_children: "rendered list")

text \<open>Modelled from the spec: what \<open>render(url, timeout)\<close> returns on success: the
  page's resolved base URL, its title, the viewport, the stylesheet text blocks and the
  DOM; the backend's declaration is missing.\<close>

record rendered_page =
  page_base :: string
  page_title :: string
  page_viewport :: "nat \<times> nat"
  page_stylesheets :: "string list"
  page_dom :: rendered

text \<open>Modelled from the spec: the characters of a URL scheme (a letter, then letters,
  digits, \<open>+\<close>, \<open>-\<close>, \<open>.\<close>); the Capture Engine's URL code is missing.\<close>

definition is_alpha :: "char \<Rightarrow> bool" where
  "is_alpha c \<longleftrightarrow>
     (of_char c :: nat) \<in> {65..90} \<or> (of_char c :: nat) \<in> {97..122}"

text \<open>Modelled from the spec: see \<open>is_alpha\<close>; the Capture Engine's URL code is
  missing.\<close>

definition is_scheme_char :: "char \<Rightarrow> bool" where
  "is_scheme_char c \<longleftrightarrow>
     is_alpha c \<or> (of_char c :: nat) \<in> {48..57} \<or> c = CHR ''+'' \<or> c = CHR ''-'' \<or> c = CHR ''.''"

text \<open>Modelled from the spec: splitting a URL into its scheme and what follows the
  colon; \<open>None\<close> when it has no scheme, that is, when it is relative or
  protocol-relative. The Capture Engine's URL code is missing.\<close>

definition split_scheme :: "string \<Rightarrow> (string \<times> string) option" where
  "split_scheme u =
     (case (takeWhile is_scheme_char u, dropWhile is_scheme_char u) of
        (c # cs, d # ds) \<Rightarrow> if is_alpha c \<and> d = CHR '':'' then Some (c # cs, ds) else None
      | _ \<Rightarrow> None)"

text \<open>Modelled from the spec: "an absolute URL", one that carries its own scheme (no
  relative path, no protocol-relative \<open>//host/...\<close>); the Capture Engine's URL code is
  missing.\<close>

definition is_absolute_url :: "string \<Rightarrow> bool" where
  "is_absolute_url u \<longleftrightarrow> split_scheme u \<noteq> None"

text \<open>Modelled from the spec: the authority part (\<open>//host\<close>) at the head of what follows
  the scheme, and the rest; the Capture Engine's URL code is missing.\<close>

definition split_authority :: "string \<Rightarrow> string \<times> string" where
  "split_authority rest =
     (if take 2 rest = ''//''
      then (let host = takeWhile (\<lambda>c. c \<noteq> CHR ''/'' \<and> c \<noteq> CHR ''?'' \<and> c \<noteq> CHR ''#'') (drop 2 rest)
            in (''//'' @ host, drop (2 + length host) rest))
      else ([], rest))"

text \<open>Modelled from the spec: a path up to and including its last slash; the Capture
  Engine's URL code is missing.\<close>

definition dirname :: "string \<Rightarrow> string" where
  "dirname path = rev (dropWhile (\<lambda>c. c \<noteq> CHR ''/'') (rev path))"

text \<open>Modelled from the spec: "every reference encountered is rewritten to an absolute
  URL using the page's resolved base" (section 4.1). A reference with a scheme stands; a
  protocol-relative one takes the base's scheme; a host-relative one the base's scheme and
  authority; a query or a fragment is put on the base's path; any other is merged with the
  directory of the base's path. A base without a scheme can resolve nothing. The Capture
  Engine's URL code is missing.\<close>

definition resolve_url :: "string \<Rightarrow> string \<Rightarrow> string" where
  "resolve_url base ref =
     (case split_scheme ref of
        Some _ \<Rightarrow> ref
      | None \<Rightarrow>
          (case split_scheme base of
             None \<Rightarrow> ref
           | Some (scheme, rest) \<Rightarrow>
               (let (authority, tail) = split_authority rest;
                    path = takeWhile (\<lambda>c. c \<noteq> CHR ''?'' \<and> c \<noteq> CHR ''#'') tail;
                    no_fragment = takeWhile (\<lambda>c. c \<noteq> CHR ''#'') tail
                in if ref = [] then scheme @ '':'' @ authority @ no_fragment
                   else if take 2 ref = ''//'' then scheme @ '':'' @ ref
                   else if take 1 ref = ''/'' then scheme @ '':'' @ authority @ ref
                   else if take 1 ref = ''?'' then scheme @ '':'' @ authority @ path @ ref
                   else if take 1 ref = ''#'' then scheme @ '':'' @ authority @ no_fragment @ ref
                   else if authority \<noteq> [] \<and> path = [] then scheme @ '':'' @ authority @ ''/'' @ ref
                   else scheme @ '':'' @ authority @ dirname path @ ref)))"

text \<open>Modelled from the spec: an AssetRef is created from a raw reference by resolving it
  against the page's base; the Capture Engine is missing.\<close>

definition make_asset :: "string \<Rightarrow> asset_kind \<times> string \<Rightarrow> AssetRef" where
  "make_asset base r = \<lparr>asset_url = resolve_url base (snd r), asset_kind = fst r\<rparr>"

text \<open>Modelled from the spec: an element is visually significant when it is not
  \<open>display:none\<close> and has non-zero rendered area or carries image or background content
  (section 4.1); the Capture Engine is missing.\<close>

definition significant :: "rendered \<Rightarrow> bool" where
  "significant r \<longleftrightarrow>
     \<not> r_display_none r \<and> (0 < r_width r * r_height r \<or> r_refs r \<noteq> [])"

text \<open>Modelled from the spec: the walk of the rendered DOM: an element that is not
  visually significant is pruned with all below it, a significant one becomes a StyleNode
  with its computed style as recorded and its references made absolute; the Capture Engine
  is missing.\<close>

fun capture_node :: "string \<Rightarrow> rendered \<Rightarrow> StyleNode option" where
  "capture_node base (Rendered tag txt style refs w h hidden kids) =
     (if significant (Rendered tag txt style refs w h hidden kids)
      then Some (StyleNode tag txt style (map (make_asset base) refs)
                   (concat (map (\<lambda>k. case capture_node base k of None \<Rightarrow> [] | Some n \<Rightarrow> [n])
                              kids)))
      else None)"

text \<open>Modelled from the spec: the asset attachments of a tree in document order; the
  Capture Engine is missing.\<close>

fun tree_assets :: "StyleNode \<Rightarrow> AssetRef list" where
  "tree_assets (StyleNode tag txt props assets kids) = assets @ concat (map tree_assets kids)"

text \<open>Modelled from the spec: the Capture Engine (section 4.1): a render failure is its
  failure; otherwise the manifest holds the captured tree, the page's metadata and the
  ordered set of the tree's AssetRefs (first occurrences, in document order). The Capture
  Engine is missing.\<close>

definition capture :: "capture_error + rendered_page \<Rightarrow> capture_error + VisualManifest" where
  "capture rendering =
     (case rendering of
        Inl e \<Rightarrow> Inl e
      | Inr page \<Rightarrow>
          (let tree = capture_node (page_base page) (page_dom page)
           in Inr \<lparr>manifest_root = tree,
                   manifest_title = page_title page,
                   manifest_viewport = page_viewport page,
                   manifest_stylesheets = page_stylesheets page,
                   manifest_assets =
                     (case tree of None \<Rightarrow> [] | Some t \<Rightarrow> rev (remdups (rev (tree_assets t))))\<rparr>))"

text \<open>A rendered page to run the Capture Engine on: a hidden banner, and a section with a
  relative image, a protocol-relative font and a host-relative stylesheet.\<close>

definition sample_page :: rendered_page where
  "sample_page =
     \<lparr>page_base = ''https://example.com/shop/index.html?lang=en#top'',
      page_title = ''Shop'',
      page_viewport = (1280, 800),
      page_stylesheets = [''body { margin: 0 }''],
      page_dom =
        Rendered ''body'' [] [(''background'', ''linear-gradient(#fff, #eee)'')] [] 1280 2000 False
          [Rendered ''div'' ''Sale'' [] [(Image, ''banner.png'')] 1280 90 True [],
           Rendered ''section'' ''Orchids'' [(''color'', ''rgb(0, 0, 0)'')]
             [(Image, ''img/orchid.png''), (Font, ''//cdn.example.net/serif.woff''),
              (Stylesheet, ''/static/site.css''), (Image, ''data:image/png;base64,AAAA'')]
             600 400 False []]\<rparr>"

section \<open>The pipeline: Consolidator\<close>

text \<open>Modelled from the spec: the Consolidator's failure (section 4.2); the backend's
  declaration is missing.\<close>

datatype consolidation_error = EmptyManifestError

text \<open>Modelled from the spec: one rule of the emitted stylesheet, a synthetic class and
  the declarations it holds; the Consolidator is missing.\<close>

record css_rule =
  rule_class :: string
  rule_props :: "(string \<times> string) list"

text \<open>Modelled from the spec: the HTML skeleton, which keeps tag names, text content and
  nesting and gives every node the class of its rule; the Consolidator is missing.\<close>

datatype skeleton =
  Skeleton (sk_tag: string) (sk_class: string) (sk_text: string) (sk_assets: "AssetRef list")
    (sk_children: "skeleton list")

text \<open>Modelled from the spec: ConsolidatedBundle, the normalized stylesheet (its rules in
  emission order), the skeleton and the AssetRef set unchanged; the backend's declaration
  is missing.\<close>

record ConsolidatedBundle =
  bundle_css :: "css_rule list"
  bundle_skeleton :: skeleton
  bundle_assets :: "AssetRef list"

text \<open>Modelled from the spec: the decimal digits of a number, for synthetic class names;
  the Consolidator is missing.\<close>

fun decimal :: "nat \<Rightarrow> string" where
  "decimal n =
     (if n < 10 then [char_of (48 + n)]
      else decimal (n div 10) @ [char_of (48 + n mod 10)])"

text \<open>Modelled from the spec: the "synthetic, collision-free class identifier" of the
  \<open>i\<close>-th rule emitted; the Consolidator is missing.\<close>

definition class_name :: "nat \<Rightarrow> string" where
  "class_name i = ''c'' @ decimal i"

text \<open>Modelled from the spec: "conflicts resolved by last-writer-wins following original
  cascade order": of several declarations of one property on a node, the last stands; the
  Consolidator is missing.\<close>

fun last_writer_wins :: "(string \<times> string) list \<Rightarrow> (string \<times> string) list" where
  "last_writer_wins [] = []"
| "last_writer_wins (d # ds) =
     (if fst d \<in> fst ` set ds then last_writer_wins ds else d # last_writer_wins ds)"

text \<open>Modelled from the spec: "deduplicate identical property sets across nodes into
  shared classes": a property set met before keeps its class, a new one gets the next
  class and its rule is appended, so rules stand in document order; the Consolidator is
  missing.\<close>

definition assign_class ::
  "css_rule list \<Rightarrow> (string \<times> string) list \<Rightarrow> string \<times> css_rule list" where
  "assign_class rules props =
     (case find (\<lambda>r. rule_props r = props) rules of
        Some r \<Rightarrow> (rule_class r, rules)
      | None \<Rightarrow>
          (class_name (length rules),
           rules @ [\<lparr>rule_class = class_name (length rules), rule_props = props\<rparr>]))"

text \<open>Modelled from the spec: the Consolidator's walk of the StyleNode tree in document
  order, threading the rules emitted so far (section 4.2); the Consolidator is missing.\<close>

fun consolidate_node :: "css_rule list \<Rightarrow> StyleNode \<Rightarrow> skeleton \<times> css_rule list"
  and consolidate_children :: "css_rule list \<Rightarrow> StyleNode list \<Rightarrow> skeleton list \<times> css_rule list"
  where
  "consolidate_node rules (StyleNode tag content props assets kids) =
     (case assign_class rules (last_writer_wins props) of
        (cls, rules1) \<Rightarrow>
          (case consolidate_children rules1 kids of
             (ks, rules2) \<Rightarrow> (Skeleton tag cls content assets ks, rules2)))"
| "consolidate_children rules [] = ([], rules)"
| "consolidate_children rules (k # ks) =
     (case consolidate_node rules k of
        (s, rules1) \<Rightarrow>
          (case consolidate_children rules1 ks of
             (ss, rules2) \<Rightarrow> (s # ss, rules2)))"

text \<open>Modelled from the spec: the Consolidator (section 4.2): \<open>EmptyManifestError\<close> for a
  manifest without a visually significant node, else the bundle of one walk started with
  no rules, the AssetRefs passed through unchanged; the Consolidator is missing.\<close>

definition consolidate :: "VisualManifest \<Rightarrow> consolidation_error + ConsolidatedBundle" where
  "consolidate m =
     (case manifest_root m of
        None \<Rightarrow> Inl EmptyManifestError
      | Some t \<Rightarrow>
          (case consolidate_node [] t of
             (sk, rules) \<Rightarrow>
               Inr \<lparr>bundle_css = rules, bundle_skeleton = sk, bundle_assets = manifest_assets m\<rparr>))"

text \<open>Modelled from the spec: the stylesheet block as text, one line per rule, rules
  concatenated in emission order; the Consolidator is missing.\<close>

definition css_text :: "css_rule list \<Rightarrow> string" where
  "css_text rules =
     concat (map (\<lambda>r. ''.'' @ rule_class r @ '' { '' @
                        concat (map (\<lambda>d. fst d @ '': '' @ snd d @ ''; '') (rule_props r)) @
                        ''}\<newline>'') rules)"

text \<open>Modelled from the spec: the skeleton as HTML text: an element per node with its
  class, the URL of its first image asset as \<open>src\<close>, its text and its children; the
  Consolidator is missing.\<close>

fun skeleton_html :: "skeleton \<Rightarrow> string" where
  \<open>skeleton_html (Skeleton tag cls content assets kids) =
     ''<'' @ tag @ '' class="'' @ cls @ ''"'' @
     (case filter (\<lambda>a. asset_kind a = Image) assets of
        [] \<Rightarrow> []
      | a # _ \<Rightarrow> '' src="'' @ asset_url a @ ''"'') @
     ''>'' @ content @ concat (map skeleton_html kids) @ ''</'' @ tag @ ''>''\<close>

section \<open>The pipeline: Prompt Assembler\<close>

text \<open>Modelled from the spec: the Prompt Assembler's failure (section 4.3); the backend's
  declaration is missing.\<close>

datatype assembly_error = BundleTooLargeError

text \<open>Modelled from the spec: the generation parameters of a request (temperature, here
  in hundredths, and max tokens); the backend's declaration is missing.\<close>

record generation_params =
  temperature_percent :: nat
  max_tokens :: nat

text \<open>Modelled from the spec: GenerationRequest, the provider-agnostic payload: system
  instructions, the bundle serialized within the budget (with the truncated bundle it
  serializes) and the generation parameters; the backend's declaration is missing.\<close>

record GenerationRequest =
  request_instructions :: string
  request_payload :: string
  request_bundle :: ConsolidatedBundle
  request_params :: generation_params

text \<open>Modelled from the spec: the Prompt Assembler's configuration, the size budget in
  characters and the parameters to send; the backend's declaration is missing.\<close>

record assembler_config =
  size_budget :: nat
  default_params :: generation_params

text \<open>Modelled from the spec: the bundle as serialized into a request: the stylesheet,
  the skeleton, then one line per AssetRef URL; the Prompt Assembler is missing.\<close>

definition serialize_bundle :: "ConsolidatedBundle \<Rightarrow> string" where
  "serialize_bundle b =
     css_text (bundle_css b) @ skeleton_html (bundle_skeleton b) @
     concat (map (\<lambda>a. ''\<newline>'' @ asset_url a) (bundle_assets b))"

text \<open>Modelled from the spec: "drop decorative asset references first". Fonts and
  stylesheets count as decorative, the computed styles being captured already; images are
  content. The Prompt Assembler is missing.\<close>

definition drop_decorative :: "ConsolidatedBundle \<Rightarrow> ConsolidatedBundle" where
  "drop_decorative b = b\<lparr>bundle_assets := filter (\<lambda>a. asset_kind a = Image) (bundle_assets b)\<rparr>"

text \<open>Modelled from the spec: a low-information subtree, one with no text and no asset
  anywhere in it; the Prompt Assembler is missing.\<close>

fun low_information :: "skeleton \<Rightarrow> bool" where
  "low_information (Skeleton tag cls content assets kids) \<longleftrightarrow>
     content = [] \<and> assets = [] \<and> list_all low_information kids"

text \<open>Modelled from the spec: "collapse deeply nested low-information subtrees": nodes
  less than \<open>d\<close> levels below the top keep all their children, nodes from level \<open>d\<close> on
  lose their low-information children; the Prompt Assembler is missing.\<close>

fun collapse_below :: "nat \<Rightarrow> skeleton \<Rightarrow> skeleton" where
  "collapse_below 0 (Skeleton tag cls content assets kids) =
     Skeleton tag cls content assets
       (map (collapse_below 0) (filter (\<lambda>k. \<not> low_information k) kids))"
| "collapse_below (Suc d) (Skeleton tag cls content assets kids) =
     Skeleton tag cls content assets (map (collapse_below d) kids)"

text \<open>Modelled from the spec: how many levels a skeleton has below its top node; the
  Prompt Assembler is missing.\<close>

fun skeleton_depth :: "skeleton \<Rightarrow> nat" where
  "skeleton_depth (Skeleton tag cls content assets kids) =
     (if kids = [] then 0 else Suc (fold max (map skeleton_depth kids) 0))"

text \<open>Modelled from the spec: the bundle truncated at level \<open>d\<close>: decorative assets
  dropped and low-information subtrees collapsed from level \<open>d\<close> on. The stylesheet, which
  holds the gradient and background declarations, is never touched. The Prompt Assembler
  is missing.\<close>

definition truncate_at :: "nat \<Rightarrow> ConsolidatedBundle \<Rightarrow> ConsolidatedBundle" where
  "truncate_at d b =
     (drop_decorative b)\<lparr>bundle_skeleton := collapse_below d (bundle_skeleton b)\<rparr>"

text \<open>Modelled from the spec: the "fixed priority order" of lossy truncation: the bundle
  as it is, then without decorative assets, then collapsed from the deepest level up to
  level 1; the top node and its children are never dropped. The Prompt Assembler is
  missing.\<close>

definition truncation_levels :: "ConsolidatedBundle \<Rightarrow> ConsolidatedBundle list" where
  "truncation_levels b =
     [b, drop_decorative b] @
     map (\<lambda>d. truncate_at d b) (rev [1..<skeleton_depth (bundle_skeleton b)])"

text \<open>Modelled from the spec: "maximal truncation", the last step of the order; the
  Prompt Assembler is missing.\<close>

definition maximal_truncation :: "ConsolidatedBundle \<Rightarrow> ConsolidatedBundle" where
  "maximal_truncation b = last (truncation_levels b)"

text \<open>Modelled from the spec: the instruction contract embedded in every request
  (section 4.3); the Prompt Assembler is missing.\<close>

definition fidelity_instructions :: string where
  "fidelity_instructions =
     ''Output a complete, self-contained HTML document. '' @
     ''Do not include placeholder or lorem-ipsum content. '' @
     ''Preserve every color, gradient and image reference verbatim. '' @
     ''Do not include explanatory prose outside the document.''"

text \<open>Modelled from the spec: the Prompt Assembler (section 4.3): the first step of the
  truncation order whose serialization fits the budget becomes the request;
  \<open>BundleTooLargeError\<close> when none fits. The Prompt Assembler is missing.\<close>

definition assemble ::
  "assembler_config \<Rightarrow> ConsolidatedBundle \<Rightarrow> assembly_error + GenerationRequest" where
  "assemble cfg b =
     (case find (\<lambda>c. length (serialize_bundle c) \<le> size_budget cfg) (truncation_levels b) of
        None \<Rightarrow> Inl BundleTooLargeError
      | Some c \<Rightarrow>
          Inr \<lparr>request_instructions = fidelity_instructions,
               request_payload = serialize_bundle c,
               request_bundle = c,
               request_params = default_params cfg\<rparr>)"

text \<open>Modelled from the spec: the "top-level layout-defining nodes" of a skeleton, its top
  node and that node's children, each with tag, class, text and assets; the Prompt
  Assembler is missing.\<close>

fun shallow :: "skeleton \<Rightarrow> string \<times> string \<times> string \<times> AssetRef list" where
  "shallow (Skeleton tag cls content assets kids) = (tag, cls, content, assets)"

text \<open>Modelled from the spec: see \<open>shallow\<close>; the Prompt Assembler is missing.\<close>

definition top_level_nodes :: "skeleton \<Rightarrow> (string \<times> string \<times> string \<times> AssetRef list) list" where
  "top_level_nodes s = shallow s # map shallow (sk_children s)"

text \<open>A bundle to run the Prompt Assembler on: a page whose second section wraps an empty
  division three levels down, with one image and one font.\<close>

definition sample_bundle :: ConsolidatedBundle where
  "sample_bundle =
     \<lparr>bundle_css = [\<lparr>rule_class = ''c0'', rule_props = [(''background'', ''linear-gradient(#fff, #eee)'')]\<rparr>],
      bundle_skeleton =
        Skeleton ''body'' ''c0'' [] []
          [Skeleton ''h1'' ''c0'' ''Shop'' [] [],
           Skeleton ''div'' ''c0'' [] []
             [Skeleton ''p'' ''c0'' ''Open'' [] [],
              Skeleton ''div'' ''c0'' [] [] [Skeleton ''span'' ''c0'' [] [] []]]],
      bundle_assets =
        [\<lparr>asset_url = ''https://example.com/a.png'', asset_kind = Image\<rparr>,
         \<lparr>asset_url = ''https://example.com/f.woff'', asset_kind = Font\<rparr>]\<rparr>"

section \<open>The pipeline: Generation Orchestrator\<close>

text \<open>Modelled from the spec: what a provider's \<open>invoke(request)\<close> gives, text or a
  transport failure (timeout, rate limit, auth error); the backend's declaration is
  missing.\<close>

datatype provider_result = ProviderTransportError | ProviderText string

text \<open>Modelled from the spec: a provider, a variant satisfying \<open>{invoke, identity}\<close>
  (section 9). A provider may answer each call differently, so \<open>invoke\<close> also takes the
  number of calls made before it in the run. The backend's declaration is missing.\<close>

record provider =
  provider_identity :: string
  provider_invoke :: "GenerationRequest \<Rightarrow> nat \<Rightarrow> provider_result"

text \<open>Modelled from the spec: CandidateArtifact, the raw text a provider returned, tagged
  with provider identity and attempt number (the latency, a wall-clock time, is left out);
  the backend's declaration is missing.\<close>

record CandidateArtifact =
  candidate_text :: string
  candidate_provider :: string
  candidate_attempt :: nat

text \<open>Modelled from the spec: the structured rejection reasons of the Validator
  (section 4.5); the backend's declaration is missing.\<close>

datatype rejection_reason = MalformedDocument | TooLittleContent | DisallowedContent | AssetLoss

text \<open>Modelled from the spec: the Validator's answer, accept or reject plus a numeric
  sufficiency score; the backend's declaration is missing.\<close>

datatype verdict = Accept nat | Reject rejection_reason nat

text \<open>Modelled from the spec: the Orchestrator's configuration: the fixed attempt cap,
  the escalation ceiling, the level above which the request is reduced in scope, and the
  base of the exponential backoff; the backend's declaration is missing.\<close>

record orchestrator_config =
  attempt_cap :: nat
  escalation_ceiling :: nat
  reduce_scope_above :: nat
  backoff_base_ms :: nat

text \<open>Modelled from the spec: the state of the machine, "(provider index, escalation
  level, attempt count)" (section 9); the backend's declaration is missing.\<close>

record orch_state =
  provider_index :: nat
  escalation_level :: nat
  attempt_count :: nat

text \<open>Modelled from the spec: the Orchestrator's failure (section 4.4); the backend's
  declaration is missing.\<close>

datatype generation_error = GenerationExhaustedError

text \<open>Modelled from the spec: the record of one provider invocation: which provider, at
  which escalation level, after how many transport failures on that provider, and the
  backoff waited before it; the Orchestrator is missing.\<close>

record invocation =
  inv_provider :: nat
  inv_level :: nat
  inv_attempt :: nat
  inv_backoff_ms :: nat

text \<open>Modelled from the spec: "escalation_level determines added emphasis/retry-specific
  instructions and, above a threshold, a reduced-scope request"; the Orchestrator is
  missing.\<close>

definition escalate :: "orchestrator_config \<Rightarrow> nat \<Rightarrow> GenerationRequest \<Rightarrow> GenerationRequest" where
  "escalate cfg level req =
     (if level = 0 then req
      else
        let req = req\<lparr>request_instructions :=
                        request_instructions req @
                        '' The previous output was rejected; you must include the full content.''\<rparr>
        in if reduce_scope_above cfg < level
           then req\<lparr>request_payload := serialize_bundle (maximal_truncation (request_bundle req)),
                    request_bundle := maximal_truncation (request_bundle req)\<rparr>
           else req)"

text \<open>Modelled from the spec: "exponential backoff": nothing before the first attempt on
  a provider, then the base doubled with every further attempt; the Orchestrator is
  missing.\<close>

definition backoff_ms :: "orchestrator_config \<Rightarrow> nat \<Rightarrow> nat" where
  "backoff_ms cfg attempt = (if attempt = 0 then 0 else backoff_base_ms cfg * 2 ^ (attempt - 1))"

text \<open>Modelled from the spec: "advance to next configured provider at escalation_level
  0"; the Orchestrator is missing.\<close>

definition next_provider :: "orch_state \<Rightarrow> orch_state" where
  "next_provider s =
     \<lparr>provider_index = Suc (provider_index s), escalation_level = 0, attempt_count = 0\<rparr>"

text \<open>Modelled from the spec: the state machine of section 4.4, run from a state. With
  every provider tried, exhaustion is signalled. With the attempt cap used up on the
  current provider, the next provider is tried. Otherwise the provider is invoked: a
  transport failure counts an attempt and retries the same provider; a candidate goes to
  the Validator, whose acceptance ends the run and whose rejection retries the same
  provider one escalation level up, or, at the ceiling, moves to the next provider. The
  second component lists the invocations made, in order. The Orchestrator is missing.\<close>

function run_orchestrator ::
  "orchestrator_config \<Rightarrow> provider list \<Rightarrow> (CandidateArtifact \<Rightarrow> verdict) \<Rightarrow>
   GenerationRequest \<Rightarrow> orch_state \<Rightarrow> invocation list \<Rightarrow>
   (generation_error + CandidateArtifact \<times> nat) \<times> invocation list" where
  "run_orchestrator cfg providers validate req s made =
     (if length providers \<le> provider_index s then (Inl GenerationExhaustedError, made)
      else if attempt_cap cfg \<le> attempt_count s
        then run_orchestrator cfg providers validate req (next_provider s) made
      else
        (case provider_invoke (providers ! provider_index s)
                (escalate cfg (escalation_level s) req) (length made) of
           ProviderTransportError \<Rightarrow>
             run_orchestrator cfg providers validate req
               (s\<lparr>attempt_count := Suc (attempt_count s)\<rparr>)
               (made @ [\<lparr>inv_provider = provider_index s, inv_level = escalation_level s,
                          inv_attempt = attempt_count s,
                          inv_backoff_ms = backoff_ms cfg (attempt_count s)\<rparr>])
         | ProviderText content \<Rightarrow>
             (case validate \<lparr>candidate_text = content,
                             candidate_provider = provider_identity (providers ! provider_index s),
                             candidate_attempt = length made\<rparr> of
                Accept score \<Rightarrow>
                  (Inr (\<lparr>candidate_text = content,
                          candidate_provider = provider_identity (providers ! provider_index s),
                          candidate_attempt = length made\<rparr>, score),
                   made @ [\<lparr>inv_provider = provider_index s, inv_level = escalation_level s,
                             inv_attempt = attempt_count s,
                             inv_backoff_ms = backoff_ms cfg (attempt_count s)\<rparr>])
              | Reject reason score \<Rightarrow>
                  if escalation_level s < escalation_ceiling cfg
                  then run_orchestrator cfg providers validate req
                         (s\<lparr>escalation_level := Suc (escalation_level s)\<rparr>)
                         (made @ [\<lparr>inv_provider = provider_index s, inv_level = escalation_level s,
                                    inv_attempt = attempt_count s,
                                    inv_backoff_ms = backoff_ms cfg (attempt_count s)\<rparr>])
                  else run_orchestrator cfg providers validate req (next_provider s)
                         (made @ [\<lparr>inv_provider = provider_index s, inv_level = escalation_level s,
                                    inv_attempt = attempt_count s,
                                    inv_backoff_ms = backoff_ms cfg (attempt_count s)\<rparr>]))))"
  by pat_completeness auto
termination
  by (relation "measures
        [\<lambda>(cfg, providers, validate, req, s, made). length providers - provider_index s,
         \<lambda>(cfg, providers, validate, req, s, made).
            (attempt_cap cfg - attempt_count s) + (escalation_ceiling cfg - escalation_level s)]")
     (auto simp: next_provider_def)

text \<open>Modelled from the spec: the Generation Orchestrator (section 4.4): the machine run
  from the first provider at escalation level 0 with no attempt made; the Orchestrator is
  missing.\<close>

definition orchestrate ::
  "orchestrator_config \<Rightarrow> provider list \<Rightarrow> (CandidateArtifact \<Rightarrow> verdict) \<Rightarrow>
   GenerationRequest \<Rightarrow> (generation_error + CandidateArtifact \<times> nat) \<times> invocation list" where
  "orchestrate cfg providers validate req =
     run_orchestrator cfg providers validate req
       \<lparr>provider_index = 0, escalation_level = 0, attempt_count = 0\<rparr> []"

section \<open>The pipeline: end to end\<close>

text \<open>Modelled from the spec: the fatal errors of a run, those of the capture phase and
  of consolidation and assembly (section 7); the backend's declaration is missing.\<close>

datatype pipeline_error =
  CaptureFailed capture_error
  | ConsolidationFailed consolidation_error
  | AssemblyFailed assembly_error

text \<open>Modelled from the spec: the provenance flag of a CloneResult; the backend's
  declaration is missing.\<close>

datatype provenance = Generated | Fallback

text \<open>Modelled from the spec: CloneResult, the terminal artifact with its provenance, its
  validation score and the AssetRef URLs surfaced as \<open>images\<close>; the backend's declaration
  is missing.\<close>

record CloneResult =
  result_html :: string
  result_provenance :: provenance
  result_score :: nat
  result_images :: "string list"

text \<open>Modelled from the spec: the deterministic fallback artifact, "plain HTML+CSS, no
  generative step": the skeleton with the bundle's stylesheet inlined in a \<open>style\<close>
  element before it; the pipeline's code is missing.\<close>

definition fallback_html :: "ConsolidatedBundle \<Rightarrow> string" where
  "fallback_html b =
     ''<style>\<newline>'' @ css_text (bundle_css b) @ ''</style>\<newline>'' @
     skeleton_html (bundle_skeleton b)"

text \<open>Modelled from the spec: the pipeline's configuration, that of its two configurable
  stages; the backend's declaration is missing.\<close>

record pipeline_config =
  assembler :: assembler_config
  orchestrator :: orchestrator_config

text \<open>Modelled from the spec: the pipeline (sections 2 and 7): capture, consolidate,
  assemble, generate. A failure of the first three stages is fatal; an accepted candidate
  is the \<open>generated\<close> result; exhaustion of the Orchestrator is recovered by the
  \<open>fallback\<close> result built from the bundle. The outer deadline, a wall-clock bound, is
  left out. The pipeline's code is missing.\<close>

definition pipeline ::
  "pipeline_config \<Rightarrow> provider list \<Rightarrow> (CandidateArtifact \<Rightarrow> verdict) \<Rightarrow>
   capture_error + rendered_page \<Rightarrow> pipeline_error + CloneResult" where
  "pipeline cfg providers validate rendering =
     (case capture rendering of
        Inl e \<Rightarrow> Inl (CaptureFailed e)
      | Inr m \<Rightarrow>
     (case consolidate m of
        Inl e \<Rightarrow> Inl (ConsolidationFailed e)
      | Inr b \<Rightarrow>
     (case assemble (assembler cfg) b of
        Inl e \<Rightarrow> Inl (AssemblyFailed e)
      | Inr req \<Rightarrow>
     (case fst (orchestrate (orchestrator cfg) providers validate req) of
        Inr (candidate, score) \<Rightarrow>
          Inr \<lparr>result_html = candidate_text candidate, result_provenance = Generated,
               result_score = score, result_images = map asset_url (bundle_assets b)\<rparr>
      | Inl GenerationExhaustedError \<Rightarrow>
          Inr \<lparr>result_html = fallback_html b, result_provenance = Fallback,
               result_score = 0, result_images = map asset_url (bundle_assets b)\<rparr>))))"

text \<open>Two providers whose transport always fails, and a Validator that accepts whatever
  it is given, to run the Orchestrator and the pipeline on.\<close>

definition failing_providers :: "provider list" where
  "failing_providers =
     [\<lparr>provider_identity = ''anthropic'', provider_invoke = (\<lambda>req calls. ProviderTransportError)\<rparr>,
      \<lparr>provider_identity = ''openai'', provider_invoke = (\<lambda>req calls. ProviderTransportError)\<rparr>]"

definition accept_all :: "CandidateArtifact \<Rightarrow> verdict" where
  "accept_all candidate = Accept 100"

text \<open>A rendered page of one paragraph, and a configuration, to run the pipeline on.\<close>

definition one_line_page :: rendered_page where
  "one_line_page =
     \<lparr>page_base = ''https://example.com/'',
      page_title = ''Hello'',
      page_viewport = (1280, 800),
      page_stylesheets = [],
      page_dom = Rendered ''p'' ''Hello'' [(''color'', ''red'')] [] 200 20 False []\<rparr>"

definition sample_config :: pipeline_config where
  "sample_config =
     \<lparr>assembler = \<lparr>size_budget = 4000,
                    default_params = \<lparr>temperature_percent = 0, max_tokens = 4096\<rparr>\<rparr>,
      orchestrator = \<lparr>attempt_cap = 3, escalation_ceiling = 2, reduce_scope_above = 2,
                       backoff_base_ms = 500\<rparr>\<rparr>"

section \<open>The pipeline: Validator\<close>

















section \<open>Properties of the clone form\<close>

lemma match_lit_append:
  "match_lit (p @ q) s = (case match_lit p s of None \<Rightarrow> None | Some r \<Rightarrow> match_lit q r)"
  by (induction p s rule: match_lit.induct) auto

lemma match_lit_starts: "(match_lit p s \<noteq> None) = starts_with_ci p s"
  by (induction p s rule: match_lit.induct) (auto simp: starts_with_ci_def)

lemma scheme_test_iff:
  "scheme_test s = (starts_with_ci (js ''http://'') s \<or> starts_with_ci (js ''https://'') s)"
proof -
  have a: "js ''http://'' = js ''http'' @ js ''://''" by (simp add: js_def)
  have b: "js ''https://'' = js ''http'' @ js ''s'' @ js ''://''" by (simp add: js_def)
  show ?thesis
    unfolding match_lit_starts[symmetric] a b match_lit_append scheme_test_def
    by (auto split: option.splits)
qed

lemma scheme_test_https: "scheme_test (js ''https://'' @ s)"
  by (simp add: scheme_test_def js_def canonicalize_def)

text \<open>
  Claim C8. For every input string, the submit handler calls \<open>onSubmit\<close> if and only if
  the trimmed input is non-empty. The URL it passes is the trimmed input itself when that
  already begins with \<open>http://\<close> or \<open>https://\<close> (in any letter case), and otherwise
  \<open>https://\<close> followed by the trimmed input; either way the URL passed begins with one of
  the two schemes.
\<close>

theorem handleSubmit_passes_scheme_url:
  "(onSubmitCalls (handleSubmit url) \<noteq> []) = (trim url \<noteq> []) \<and>
   onSubmitCalls (handleSubmit url) =
     (if trim url = [] then []
      else if starts_with_ci (js ''http://'') (trim url) \<or>
              starts_with_ci (js ''https://'') (trim url)
           then [trim url]
      else [js ''https://'' @ trim url]) \<and>
   (\<forall>u \<in> set (onSubmitCalls (handleSubmit url)).
       starts_with_ci (js ''http://'') u \<or> starts_with_ci (js ''https://'') u)"
  using scheme_test_https[of "trim url"]
  by (auto simp: handleSubmit_def Let_def scheme_test_iff)

theorem handleSubmit_passes_scheme_url_witness:
  "onSubmitCalls (handleSubmit (js '' Example.com/a b  '')) = [js ''https://Example.com/a b''] \<and>
   onSubmitCalls (handleSubmit (js ''HTTP://example.com'')) = [js ''HTTP://example.com''] \<and>
   onSubmitCalls (handleSubmit (js ''  '')) = []"
  using handleSubmit_passes_scheme_url[of "js '' Example.com/a b  ''"]
        handleSubmit_passes_scheme_url[of "js ''HTTP://example.com''"]
        handleSubmit_passes_scheme_url[of "js ''  ''"]
  by (simp add: trim_def js_def isWhiteSpace_def starts_with_ci_def canonicalize_def)

section \<open>Properties of text search\<close>



lemma contains_Cons: "contains p s \<Longrightarrow> contains p (c # s)"
  by simp



lemma contains_nonempty: "contains p s \<Longrightarrow> p \<noteq> [] \<Longrightarrow> s \<noteq> []"
  by auto

section \<open>Properties of the Home page\<close>

text \<open>
  Claim C9. After a completed run of \<open>handleClone\<close>, whether \<open>cloneWebsite\<close> resolved or
  threw, at most one of \<open>cloneResult\<close> and \<open>error\<close> is non-null: when it resolved,
  \<open>cloneResult\<close> is the result and \<open>error\<close> is null; when it threw, \<open>cloneResult\<close> is null
  and \<open>error\<close> is the message. Whatever the two cells held before the run is gone.
\<close>

theorem handleClone_result_xor_error:
  "(cloneResult (handleClone cloneWebsite url s) = None \<or>
    error (handleClone cloneWebsite url s) = None) \<and>
   (case cloneWebsite url of
      Inr result \<Rightarrow>
        cloneResult (handleClone cloneWebsite url s) = Some result \<and>
        error (handleClone cloneWebsite url s) = None
    | Inl err \<Rightarrow>
        cloneResult (handleClone cloneWebsite url s) = None \<and>
        error (handleClone cloneWebsite url s) =
          Some (error_message err (js ''Failed to clone website''))) \<and>
   isLoading (handleClone cloneWebsite url s) = False"
  by (simp add: handleClone_def split: sum.splits)

theorem handleClone_result_xor_error_witness:
  "error (handleClone (\<lambda>u. Inl (ErrorObj (js ''HTTP 502'')))
            (js ''https://example.com'')
            \<lparr>cloneResult = Some \<lparr>clone_html = Some (js ''<html>''), images = None\<rparr>,
             isLoading = False, error = None, originalUrl = js ''https://old.example''\<rparr>)
     = Some (js ''HTTP 502'') \<and>
   cloneResult (handleClone (\<lambda>u. Inl (ErrorObj (js ''HTTP 502'')))
            (js ''https://example.com'')
            \<lparr>cloneResult = Some \<lparr>clone_html = Some (js ''<html>''), images = None\<rparr>,
             isLoading = False, error = None, originalUrl = js ''https://old.example''\<rparr>)
     = None"
  using handleClone_result_xor_error
    [of "\<lambda>u. Inl (ErrorObj (js ''HTTP 502''))" "js ''https://example.com''"
        "\<lparr>cloneResult = Some \<lparr>clone_html = Some (js ''<html>''), images = None\<rparr>,
          isLoading = False, error = None, originalUrl = js ''https://old.example''\<rparr>"]
  by (simp add: error_message_def)

section \<open>Properties of the API route\<close>

lemma get_property_url:
  "body \<noteq> JNull \<Longrightarrow> get_property body (js ''url'') = Inr (url_field body)"
  by (cases body) (simp_all add: url_field_def)

lemma POST_try_falsy_url:
  assumes "body \<noteq> JNull" and "\<not> truthy (url_field body)"
  shows "POST_try (Inr body) fetch =
           (NextResponse_json (error_body (JStr (js ''URL is required''))) 400, [])"
proof (cases "url_field body")
  case None
  with assms show ?thesis by (simp add: POST_try_def get_property_url)
next
  case (Some u)
  with assms show ?thesis by (simp add: POST_try_def get_property_url)
qed

lemma POST_try_null: "POST_try (Inr JNull) fetch =
    (Inl (ErrorObj (js ''Cannot read properties of null'')), [])"
  by (simp add: POST_try_def)

text \<open>
  Claim C10, as stated, fails for the JSON body \<open>null\<close>: it has no truthy \<open>url\<close> field, the
  destructuring \<open>const { url } = body\<close> throws, and the handler answers 500, not 400.
\<close>

theorem POST_null_body_counterexample:
  "\<not> truthy (url_field JNull) \<and>
   response_status (fst (POST (Inr JNull) backend_unreachable)) = 500 \<and>
   response_status (fst (POST (Inr JNull) backend_unreachable)) \<noteq> 400"
  by (simp add: url_field_def POST_def POST_try_null internal_server_error_def)

text \<open>
  Claim C10, amended. For every request whose JSON body is not \<open>null\<close> and lacks a truthy
  \<open>url\<close> field, the handler answers 400 with \<open>{ error: "URL is required" }\<close>. For every body
  that lacks a truthy \<open>url\<close> field, \<open>null\<close> included, no fetch is issued. An exception
  anywhere in the \<open>try\<close> block (the body \<open>null\<close>, a request that is not JSON, a failing
  fetch, ...) gives 500 with \<open>{ error: "Internal server error" }\<close>.
\<close>

theorem POST_url_required:
  "(body \<noteq> JNull \<and> \<not> truthy (url_field body) \<longrightarrow>
      POST (Inr body) fetch =
        (\<lparr>response_status = 400,
          response_body = JObj [(js ''error'', JStr (js ''URL is required''))]\<rparr>, [])) \<and>
   (\<not> truthy (url_field body) \<longrightarrow> snd (POST (Inr body) fetch) = []) \<and>
   (\<forall>e fetched. POST_try request_json fetch = (Inl e, fetched) \<longrightarrow>
      POST request_json fetch =
        (\<lparr>response_status = 500,
          response_body = JObj [(js ''error'', JStr (js ''Internal server error''))]\<rparr>, fetched))"
proof (intro conjI impI allI)
  assume "body \<noteq> JNull \<and> \<not> truthy (url_field body)"
  then show "POST (Inr body) fetch =
        (\<lparr>response_status = 400,
          response_body = JObj [(js ''error'', JStr (js ''URL is required''))]\<rparr>, [])"
    by (simp add: POST_def POST_try_falsy_url NextResponse_json_def error_body_def)
next
  assume falsy: "\<not> truthy (url_field body)"
  show "snd (POST (Inr body) fetch) = []"
  proof (cases "body = JNull")
    case True
    then show ?thesis by (simp add: POST_def POST_try_null)
  next
    case False
    with falsy show ?thesis
      by (simp add: POST_def POST_try_falsy_url NextResponse_json_def)
  qed
next
  fix e fetched
  assume "POST_try request_json fetch = (Inl e, fetched)"
  then show "POST request_json fetch =
        (\<lparr>response_status = 500,
          response_body = JObj [(js ''error'', JStr (js ''Internal server error''))]\<rparr>, fetched)"
    by (simp add: POST_def internal_server_error_def error_body_def)
qed

theorem POST_url_required_witness:
  "POST (Inr (JObj [(js ''url'', JStr (js ''''))])) backend_unreachable =
     (\<lparr>response_status = 400,
       response_body = JObj [(js ''error'', JStr (js ''URL is required''))]\<rparr>, []) \<and>
   POST (Inl (ErrorObj (js ''Unexpected token''))) backend_unreachable =
     (\<lparr>response_status = 500,
       response_body = JObj [(js ''error'', JStr (js ''Internal server error''))]\<rparr>, [])"
proof -
  have a: "JObj [(js ''url'', JStr (js ''''))] \<noteq> JNull \<and>
           \<not> truthy (url_field (JObj [(js ''url'', JStr (js ''''))]))"
    by (simp add: url_field_def js_def)
  have b: "POST_try (Inl (ErrorObj (js ''Unexpected token''))) backend_unreachable =
             (Inl (ErrorObj (js ''Unexpected token'')), [])"
    by (simp add: POST_try_def)
  from a b
    POST_url_required [of "JObj [(js ''url'', JStr (js ''''))]" backend_unreachable
                          "Inl (ErrorObj (js ''Unexpected token''))"]
  show ?thesis by blast
qed






section \<open>Properties of the result view\<close>







subsection \<open>The preview's \<open>onLoad\<close> check\<close>

text \<open>
  Claim C6, as stated, fails in its second half: a full document with more than fifty
  characters of visible text, all of it in one paragraph, has one meaningful element and
  the check flags it.
\<close>

theorem onLoad_text_only_counterexample:
  "document_body text_only_page \<noteq> None \<and>
   50 < length (bodyText text_only_page) \<and>
   length (visibleElements text_only_page) = 1 \<and>
   htmlError (onLoad (Some text_only_page) initial_view) \<noteq> None"
  by (simp add: text_only_page_def document_body_def bodyText_def visibleElements_def
        meaningfulElements_def meaningful_tags_def onLoad_def trim_def isWhiteSpace_def js_def)

text \<open>
  Claim C6, amended. The check flags (sets \<open>htmlError\<close> for) every document with fewer than
  5 meaningful elements, those being the elements of the sixteen listed kinds that bear
  non-blank text or are images, and every document whose body text is shorter than 50 code
  units, a document without a body among them. It passes a document, leaving the state as
  it was, exactly when the body text has at least 50 code units and there are at least 5
  meaningful elements.
\<close>

theorem onLoad_minimal_content:
  "(length (visibleElements doc) < 5 \<or> length (bodyText doc) < 50 \<longrightarrow>
      htmlError (onLoad (Some doc) v) =
        Some (minimal_content_message (length (bodyText doc))
               (length (visibleElements doc)))) \<and>
   (document_body doc = None \<longrightarrow> htmlError (onLoad (Some doc) v) \<noteq> None) \<and>
   (50 \<le> length (bodyText doc) \<and> 5 \<le> length (visibleElements doc) \<longrightarrow>
      onLoad (Some doc) v = v) \<and>
   set (visibleElements doc) =
     {el. el \<in> set (elements doc) \<and> tagName_lower el \<in> set meaningful_tags \<and>
          (trim (textContent el) \<noteq> [] \<or> tagName_lower el = js ''img'')}"
  by (auto simp: onLoad_def bodyText_def visibleElements_def meaningfulElements_def)

theorem onLoad_minimal_content_witness:
  "onLoad (Some six_block_page) initial_view = initial_view \<and>
   htmlError (onLoad (Some text_only_page) initial_view) =
     Some (minimal_content_message (length (bodyText text_only_page))
            (length (visibleElements text_only_page)))"
proof -
  have a: "50 \<le> length (bodyText six_block_page) \<and> 5 \<le> length (visibleElements six_block_page)"
    by (simp add: six_block_page_def document_body_def bodyText_def visibleElements_def
          meaningfulElements_def meaningful_tags_def trim_def isWhiteSpace_def js_def)
  have b: "length (visibleElements text_only_page) < 5"
    by (simp add: text_only_page_def visibleElements_def
          meaningfulElements_def meaningful_tags_def trim_def isWhiteSpace_def js_def)
  from a b onLoad_minimal_content [of six_block_page initial_view]
       onLoad_minimal_content [of text_only_page initial_view]
  show ?thesis by blast
qed

section \<open>Properties of the Capture Engine\<close>

lemma split_scheme_prefix:
  assumes "split_scheme base = Some (scheme, rest)"
  shows "split_scheme (scheme @ '':'' @ x) = Some (scheme, x)"
proof -
  obtain c cs where tw: "takeWhile is_scheme_char base = c # cs"
    using assms by (cases "takeWhile is_scheme_char base") (auto simp: split_scheme_def)
  with assms have s: "scheme = c # cs" and a: "is_alpha c"
    by (auto simp: split_scheme_def split: list.splits if_splits)
  have all: "\<forall>y \<in> set scheme. is_scheme_char y"
    using tw s by (metis set_takeWhileD)
  have colon: "\<not> is_scheme_char (CHR '':'')"
    by (simp add: is_scheme_char_def is_alpha_def)
  have "takeWhile is_scheme_char (scheme @ '':'' @ x) = scheme"
    using all colon by (simp add: takeWhile_append2)
  moreover have "dropWhile is_scheme_char (scheme @ '':'' @ x) = '':'' @ x"
    using all colon by (simp add: dropWhile_append2)
  ultimately show ?thesis using s a by (simp add: split_scheme_def)
qed

lemma resolve_url_absolute:
  assumes "is_absolute_url base"
  shows "is_absolute_url (resolve_url base ref)"
proof (cases "split_scheme ref")
  case (Some p)
  then show ?thesis by (simp add: resolve_url_def is_absolute_url_def)
next
  case None
  from assms obtain scheme rest where b: "split_scheme base = Some (scheme, rest)"
    by (auto simp: is_absolute_url_def)
  have "\<And>x. split_scheme (scheme @ '':'' @ x) \<noteq> None"
    using split_scheme_prefix [OF b] by simp
  then show ?thesis
    using None b
    by (simp add: resolve_url_def is_absolute_url_def Let_def split: prod.splits)
qed

lemma absolute_not_slash: "is_absolute_url u \<Longrightarrow> take 1 u \<noteq> ''/''"
  by (cases u) (auto simp: is_absolute_url_def split_scheme_def is_scheme_char_def is_alpha_def
      split: list.splits if_splits)

lemma capture_node_assets_absolute:
  "is_absolute_url base \<Longrightarrow> capture_node base r = Some n \<Longrightarrow>
   a \<in> set (tree_assets n) \<Longrightarrow> is_absolute_url (asset_url a)"
proof (induction base r arbitrary: n a rule: capture_node.induct)
  case (1 base tag tx style refs w h hidden kids)
  from "1.prems"(2) have sig: "significant (Rendered tag tx style refs w h hidden kids)"
    and n: "n = StyleNode tag tx style (map (make_asset base) refs)
                 (concat (map (\<lambda>k. case capture_node base k of None \<Rightarrow> [] | Some n \<Rightarrow> [n]) kids))"
    by (auto split: if_splits)
  from "1.prems"(3) n consider
      (own) "a \<in> set (map (make_asset base) refs)"
    | (below) k c where "k \<in> set kids" "capture_node base k = Some c" "a \<in> set (tree_assets c)"
    by (auto split: option.splits) metis
  then show ?case
  proof cases
    case own
    then show ?thesis
      using "1.prems"(1) by (auto simp: make_asset_def resolve_url_absolute)
  next
    case below
    then show ?thesis using "1.IH" [OF sig] "1.prems"(1) by blast
  qed
qed

text \<open>
  Claim C3. For every manifest the Capture Engine produces from a rendered page, every
  AssetRef URL in it, in the manifest's asset set and on every node of its tree, is an
  absolute URL: it carries a scheme, so it is neither a relative path nor protocol-relative.
  The page's resolved base is taken to be absolute, as the base of a loaded page is.
\<close>

theorem capture_asset_urls_absolute:
  assumes "capture (Inr page) = Inr m" and "is_absolute_url (page_base page)"
  shows "(\<forall>a \<in> set (manifest_assets m).
            is_absolute_url (asset_url a) \<and> take 1 (asset_url a) \<noteq> ''/'') \<and>
         (\<forall>t. manifest_root m = Some t \<longrightarrow>
            (\<forall>a \<in> set (tree_assets t).
               is_absolute_url (asset_url a) \<and> take 1 (asset_url a) \<noteq> ''/''))"
proof -
  from assms(1) have m: "manifest_root m = capture_node (page_base page) (page_dom page)"
    and ma: "manifest_assets m =
       (case manifest_root m of None \<Rightarrow> [] | Some t \<Rightarrow> rev (remdups (rev (tree_assets t))))"
    by (auto simp: capture_def Let_def)
  have tree: "is_absolute_url (asset_url a)"
    if "manifest_root m = Some t" "a \<in> set (tree_assets t)" for t a
    using that m capture_node_assets_absolute [OF assms(2)] by metis
  have "is_absolute_url (asset_url a)" if "a \<in> set (manifest_assets m)" for a
    using that ma tree by (cases "manifest_root m") auto
  with tree absolute_not_slash show ?thesis by blast
qed

theorem capture_asset_urls_absolute_witness:
  "map asset_url (manifest_assets (projr (capture (Inr sample_page)))) =
     [''https://example.com/shop/img/orchid.png'', ''https://cdn.example.net/serif.woff'',
      ''https://example.com/static/site.css'', ''data:image/png;base64,AAAA''] \<and>
   list_all (\<lambda>a. is_absolute_url (asset_url a))
     (manifest_assets (projr (capture (Inr sample_page))))"
proof -
  have base: "is_absolute_url (page_base sample_page)"
    by code_simp
  have run: "capture (Inr sample_page) = Inr (projr (capture (Inr sample_page)))"
    by (simp add: capture_def Let_def)
  have r1: "resolve_url ''https://example.com/shop/index.html?lang=en#top'' ''img/orchid.png'' =
              ''https://example.com/shop/img/orchid.png''"
    by code_simp
  have r2: "resolve_url ''https://example.com/shop/index.html?lang=en#top''
              ''//cdn.example.net/serif.woff'' = ''https://cdn.example.net/serif.woff''"
    by code_simp
  have r3: "resolve_url ''https://example.com/shop/index.html?lang=en#top'' ''/static/site.css'' =
              ''https://example.com/static/site.css''"
    by code_simp
  have r4: "resolve_url ''https://example.com/shop/index.html?lang=en#top''
              ''data:image/png;base64,AAAA'' = ''data:image/png;base64,AAAA''"
    by code_simp
  have tree: "capture_node (page_base sample_page) (page_dom sample_page) =
     Some (StyleNode ''body'' [] [(''background'', ''linear-gradient(#fff, #eee)'')] []
            [StyleNode ''section'' ''Orchids'' [(''color'', ''rgb(0, 0, 0)'')]
               [\<lparr>asset_url = ''https://example.com/shop/img/orchid.png'', asset_kind = Image\<rparr>,
                \<lparr>asset_url = ''https://cdn.example.net/serif.woff'', asset_kind = Font\<rparr>,
                \<lparr>asset_url = ''https://example.com/static/site.css'', asset_kind = Stylesheet\<rparr>,
                \<lparr>asset_url = ''data:image/png;base64,AAAA'', asset_kind = Image\<rparr>] []])"
    by (simp add: sample_page_def significant_def make_asset_def r1 r2 r3 r4)
  have urls: "map asset_url (manifest_assets (projr (capture (Inr sample_page)))) =
     [''https://example.com/shop/img/orchid.png'', ''https://cdn.example.net/serif.woff'',
      ''https://example.com/static/site.css'', ''data:image/png;base64,AAAA'']"
    by (simp add: capture_def Let_def tree)
  from capture_asset_urls_absolute [OF run base] urls
  show ?thesis by (simp add: list_all_iff)
qed

section \<open>Properties of the Prompt Assembler\<close>

lemma shallow_collapse: "shallow (collapse_below d s) = shallow s"
  by (cases d; cases s) simp_all

lemma top_level_collapse: "top_level_nodes (collapse_below (Suc d) s) = top_level_nodes s"
  by (cases s) (simp add: top_level_nodes_def shallow_collapse comp_def)

lemma truncation_levels_keep:
  assumes "c \<in> set (truncation_levels b)"
  shows "top_level_nodes (bundle_skeleton c) = top_level_nodes (bundle_skeleton b) \<and>
         bundle_css c = bundle_css b"
proof -
  from assms have "c = b \<or> c = drop_decorative b \<or> (\<exists>d. 1 \<le> d \<and> c = truncate_at d b)"
    by (auto simp: truncation_levels_def)
  then consider "c = b" | "c = drop_decorative b"
    | d where "1 \<le> d" "c = truncate_at d b"
    by blast
  then show ?thesis
  proof cases
    case 3
    then obtain d' where "d = Suc d'" by (cases d) auto
    with 3 show ?thesis
      by (simp add: drop_decorative_def truncate_at_def top_level_collapse)
  qed (simp_all add: drop_decorative_def)
qed

lemma maximal_truncation_level: "maximal_truncation b \<in> set (truncation_levels b)"
  unfolding maximal_truncation_def by (rule last_in_set) (simp add: truncation_levels_def)

lemma assemble_result:
  "(case assemble cfg b of
      Inr req \<Rightarrow>
        length (request_payload req) \<le> size_budget cfg \<and>
        request_payload req = serialize_bundle (request_bundle req) \<and>
        top_level_nodes (bundle_skeleton (request_bundle req)) =
          top_level_nodes (bundle_skeleton b) \<and>
        bundle_css (request_bundle req) = bundle_css b
    | Inl e \<Rightarrow>
        e = BundleTooLargeError \<and>
        size_budget cfg < length (serialize_bundle (maximal_truncation b))) \<and>
   (length (serialize_bundle b) \<le> size_budget cfg \<longrightarrow>
      (\<exists>req. assemble cfg b = Inr req \<and> request_bundle req = b))"
proof (cases "find (\<lambda>c. length (serialize_bundle c) \<le> size_budget cfg) (truncation_levels b)")
  case None
  then have "\<not> length (serialize_bundle (maximal_truncation b)) \<le> size_budget cfg"
    using maximal_truncation_level [of b] unfolding find_None_iff by blast
  moreover have "\<not> length (serialize_bundle b) \<le> size_budget cfg"
    using None unfolding find_None_iff by (auto simp: truncation_levels_def)
  ultimately show ?thesis using None by (simp add: assemble_def)
next
  case (Some c)
  then obtain i where i: "i < length (truncation_levels b)" "c = truncation_levels b ! i"
    and fits: "length (serialize_bundle c) \<le> size_budget cfg"
    unfolding find_Some_iff by blast
  then have "c \<in> set (truncation_levels b)" by simp
  from truncation_levels_keep [OF this] fits Some
  have first: "case assemble cfg b of
      Inr req \<Rightarrow>
        length (request_payload req) \<le> size_budget cfg \<and>
        request_payload req = serialize_bundle (request_bundle req) \<and>
        top_level_nodes (bundle_skeleton (request_bundle req)) =
          top_level_nodes (bundle_skeleton b) \<and>
        bundle_css (request_bundle req) = bundle_css b
    | Inl e \<Rightarrow>
        e = BundleTooLargeError \<and>
        size_budget cfg < length (serialize_bundle (maximal_truncation b))"
    by (simp add: assemble_def)
  have "c = b" if "length (serialize_bundle b) \<le> size_budget cfg"
    using that Some by (simp add: truncation_levels_def)
  with Some have "length (serialize_bundle b) \<le> size_budget cfg \<longrightarrow>
      (\<exists>req. assemble cfg b = Inr req \<and> request_bundle req = b)"
    by (simp add: assemble_def)
  with first show ?thesis by (rule conjI)
qed


lemma walk_shape:
  "shallow (fst (consolidate_node rules t)) =
     (node_tag t, fst (assign_class rules (last_writer_wins (node_props t))), node_text t,
      node_assets t)"
  "map (\<lambda>s. (sk_tag s, sk_text s, sk_assets s)) (fst (consolidate_children rules ts)) =
     map (\<lambda>n. (node_tag n, node_text n, node_assets n)) ts"
proof (induction rules t and rules ts rule: consolidate_node_consolidate_children.induct)
  case (1 rules tag content props assets kids)
  show ?case by (simp split: prod.splits)
next
  case (2 rules)
  show ?case by simp
next
  case (3 rules k ks)
  obtain s rules1 where a: "consolidate_node rules k = (s, rules1)"
    by (cases "consolidate_node rules k")
  obtain ss rules2 where c: "consolidate_children rules1 ks = (ss, rules2)"
    by (cases "consolidate_children rules1 ks")
  from "3.IH"(1) a have "(sk_tag s, sk_text s, sk_assets s) = (node_tag k, node_text k, node_assets k)"
    by (cases s) simp
  with "3.IH"(2) [OF a [symmetric]] c a show ?case by simp
qed

lemma consolidate_top_level:
  assumes "consolidate m = Inr b" and "manifest_root m = Some t"
  shows "map (\<lambda>s. (sk_tag s, sk_text s, sk_assets s))
           (bundle_skeleton b # sk_children (bundle_skeleton b)) =
         map (\<lambda>n. (node_tag n, node_text n, node_assets n)) (t # node_children t)"
proof (cases t)
  case (StyleNode tag content props assets kids)
  obtain cls rules1 where a: "assign_class [] (last_writer_wins props) = (cls, rules1)"
    by (cases "assign_class [] (last_writer_wins props)")
  obtain ks rules2 where c: "consolidate_children rules1 kids = (ks, rules2)"
    by (cases "consolidate_children rules1 kids")
  from assms StyleNode a c have b: "bundle_skeleton b = Skeleton tag cls content assets ks"
    by (auto simp: consolidate_def)
  from walk_shape(2) [of rules1 kids] c
  have "map (\<lambda>s. (sk_tag s, sk_text s, sk_assets s)) ks =
        map (\<lambda>n. (node_tag n, node_text n, node_assets n)) kids"
    by simp
  with b StyleNode show ?thesis by simp
qed


lemma shallow_projection:
  "(case shallow s of (tg, c, x, a) \<Rightarrow> (tg, x, a)) = (sk_tag s, sk_text s, sk_assets s)"
  by (cases s) simp

text \<open>
  Claim C7. Whenever the Prompt Assembler returns a request, its payload is at most the
  budget, it is the serialization of a bundle that keeps every top-level node of the
  original (the top node and all its children, with tag, class, text and assets) and the
  whole stylesheet; so a bundle over the budget is truncated to fit. It fails, with
  \<open>BundleTooLargeError\<close>, only when even the maximal truncation is over the budget, and
  a bundle that fits is sent untruncated. For a bundle the Consolidator made from a
  manifest, the top-level nodes kept are those of the manifest's tree: its root and the
  root's children, in order, with their tags, texts and assets.
\<close>

theorem assemble_within_budget:
  "(case assemble cfg b of
      Inr req \<Rightarrow>
        length (request_payload req) \<le> size_budget cfg \<and>
        request_payload req = serialize_bundle (request_bundle req) \<and>
        top_level_nodes (bundle_skeleton (request_bundle req)) =
          top_level_nodes (bundle_skeleton b) \<and>
        bundle_css (request_bundle req) = bundle_css b
    | Inl e \<Rightarrow>
        e = BundleTooLargeError \<and>
        size_budget cfg < length (serialize_bundle (maximal_truncation b))) \<and>
   (length (serialize_bundle b) \<le> size_budget cfg \<longrightarrow>
      (\<exists>req. assemble cfg b = Inr req \<and> request_bundle req = b)) \<and>
   (\<forall>m t req. consolidate m = Inr b \<and> manifest_root m = Some t \<and> assemble cfg b = Inr req \<longrightarrow>
      map (\<lambda>s. (sk_tag s, sk_text s, sk_assets s))
        (bundle_skeleton (request_bundle req) # sk_children (bundle_skeleton (request_bundle req))) =
      map (\<lambda>n. (node_tag n, node_text n, node_assets n)) (t # node_children t))"
proof -
  have kept: "map (\<lambda>s. (sk_tag s, sk_text s, sk_assets s))
        (bundle_skeleton (request_bundle req) # sk_children (bundle_skeleton (request_bundle req))) =
      map (\<lambda>n. (node_tag n, node_text n, node_assets n)) (t # node_children t)"
    if m: "consolidate m = Inr b" "manifest_root m = Some t" and r: "assemble cfg b = Inr req"
    for m t req
  proof -
    from assemble_result [of cfg b] r
    have "top_level_nodes (bundle_skeleton (request_bundle req)) =
          top_level_nodes (bundle_skeleton b)"
      by simp
    then have "map shallow (bundle_skeleton (request_bundle req) #
                            sk_children (bundle_skeleton (request_bundle req))) =
               map shallow (bundle_skeleton b # sk_children (bundle_skeleton b))"
      by (simp add: top_level_nodes_def)
    then have "map (\<lambda>p. case p of (tg, c, x, a) \<Rightarrow> (tg, x, a))
                 (map shallow (bundle_skeleton (request_bundle req) #
                               sk_children (bundle_skeleton (request_bundle req)))) =
               map (\<lambda>p. case p of (tg, c, x, a) \<Rightarrow> (tg, x, a))
                 (map shallow (bundle_skeleton b # sk_children (bundle_skeleton b)))"
      by (rule arg_cong)
    then have "map (\<lambda>s. (sk_tag s, sk_text s, sk_assets s))
                 (bundle_skeleton (request_bundle req) #
                  sk_children (bundle_skeleton (request_bundle req))) =
               map (\<lambda>s. (sk_tag s, sk_text s, sk_assets s))
                 (bundle_skeleton b # sk_children (bundle_skeleton b))"
      unfolding map_map comp_def shallow_projection .
    with consolidate_top_level [OF m] show ?thesis by simp
  qed
  from assemble_result [of cfg b] kept show ?thesis by blast
qed

theorem assemble_within_budget_witness:
  "length (request_payload (projr (assemble
      \<lparr>size_budget = 200, default_params = \<lparr>temperature_percent = 0, max_tokens = 4096\<rparr>\<rparr>
      sample_bundle))) \<le> 200 \<and>
   request_bundle (projr (assemble
      \<lparr>size_budget = 200, default_params = \<lparr>temperature_percent = 0, max_tokens = 4096\<rparr>\<rparr>
      sample_bundle)) = truncate_at 2 sample_bundle \<and>
   top_level_nodes (bundle_skeleton (truncate_at 2 sample_bundle)) =
     [(''body'', ''c0'', [], []), (''h1'', ''c0'', ''Shop'', []), (''div'', ''c0'', [], [])]"
proof -
  let ?cfg = "\<lparr>size_budget = 200,
                default_params = \<lparr>temperature_percent = 0, max_tokens = 4096\<rparr>\<rparr>"
  have depth: "skeleton_depth (bundle_skeleton sample_bundle) = 3"
    by (simp add: sample_bundle_def)
  have levels: "rev [Suc 0..<3] = [2, 1]"
    by (simp add: upt_rec)
  have l0: "length (serialize_bundle sample_bundle) = 240"
    by (simp add: sample_bundle_def serialize_bundle_def css_text_def)
  have l1: "length (serialize_bundle (drop_decorative sample_bundle)) = 213"
    by (simp add: sample_bundle_def serialize_bundle_def css_text_def drop_decorative_def)
  have l2: "length (serialize_bundle (truncate_at 2 sample_bundle)) = 189"
    by (simp add: sample_bundle_def serialize_bundle_def css_text_def drop_decorative_def
          truncate_at_def numeral_2_eq_2)
  have run: "assemble ?cfg sample_bundle =
     Inr \<lparr>request_instructions = fidelity_instructions,
          request_payload = serialize_bundle (truncate_at 2 sample_bundle),
          request_bundle = truncate_at 2 sample_bundle,
          request_params = \<lparr>temperature_percent = 0, max_tokens = 4096\<rparr>\<rparr>"
    by (simp add: assemble_def truncation_levels_def depth levels l0 l1 l2)
  have top: "top_level_nodes (bundle_skeleton sample_bundle) =
     [(''body'', ''c0'', [], []), (''h1'', ''c0'', ''Shop'', []), (''div'', ''c0'', [], [])]"
    by (simp add: sample_bundle_def top_level_nodes_def)
  from conjunct1 [OF assemble_within_budget [of ?cfg sample_bundle]] top
  show ?thesis unfolding run by simp
qed

section \<open>Properties of the Generation Orchestrator\<close>

declare run_orchestrator.simps [simp del]

lemma run_all_fail:
  assumes "\<forall>p \<in> set providers. \<forall>r k. provider_invoke p r k = ProviderTransportError"
  shows "fst (run_orchestrator cfg providers validate req s made) = Inl GenerationExhaustedError \<and>
         length (snd (run_orchestrator cfg providers validate req s made)) =
           length made +
           (if provider_index s < length providers
            then (attempt_cap cfg - attempt_count s) +
                 (length providers - Suc (provider_index s)) * attempt_cap cfg
            else 0)"
  using assms
proof (induction cfg providers validate req s made rule: run_orchestrator.induct)
  case (1 cfg providers validate req s made)
  show ?case
  proof (cases "length providers \<le> provider_index s")
    case True
    then show ?thesis by (subst (1 2) run_orchestrator.simps) simp
  next
    case inside: False
    show ?thesis
    proof (cases "attempt_cap cfg \<le> attempt_count s")
      case True
      have step: "run_orchestrator cfg providers validate req s made =
                  run_orchestrator cfg providers validate req (next_provider s) made"
        using inside True by (subst run_orchestrator.simps) simp
      have idx: "provider_index (next_provider s) = Suc (provider_index s)"
        and att: "attempt_count (next_provider s) = 0"
        by (simp_all add: next_provider_def)
      have arith: "(if Suc (provider_index s) < length providers
             then attempt_cap cfg + (length providers - Suc (Suc (provider_index s))) * attempt_cap cfg
             else 0) =
            (length providers - Suc (provider_index s)) * attempt_cap cfg"
      proof (cases "Suc (provider_index s) < length providers")
        case True
        then have "length providers - Suc (provider_index s) =
                   Suc (length providers - Suc (Suc (provider_index s)))"
          by simp
        with True show ?thesis by simp
      next
        case False
        with inside show ?thesis by simp
      qed
      from "1.IH"(1) [OF inside True "1.prems"]
      have ex: "fst (run_orchestrator cfg providers validate req (next_provider s) made) =
                  Inl GenerationExhaustedError"
        and "length (snd (run_orchestrator cfg providers validate req (next_provider s) made)) =
               length made +
               (if Suc (provider_index s) < length providers
                then attempt_cap cfg + (length providers - Suc (Suc (provider_index s))) * attempt_cap cfg
                else 0)"
        unfolding idx att by simp_all
      then have "length (snd (run_orchestrator cfg providers validate req (next_provider s) made)) =
               length made + (length providers - Suc (provider_index s)) * attempt_cap cfg"
        unfolding arith by simp
      moreover have "attempt_cap cfg - attempt_count s = 0" using True by simp
      ultimately show ?thesis using ex inside unfolding step by simp
    next
      case below: False
      from inside have "providers ! provider_index s \<in> set providers" by simp
      with "1.prems" have fails:
        "provider_invoke (providers ! provider_index s)
           (escalate cfg (escalation_level s) req) (length made) = ProviderTransportError"
        by blast
      have step: "run_orchestrator cfg providers validate req s made =
                  run_orchestrator cfg providers validate req
                    (s\<lparr>attempt_count := Suc (attempt_count s)\<rparr>)
                    (made @ [\<lparr>inv_provider = provider_index s, inv_level = escalation_level s,
                               inv_attempt = attempt_count s,
                               inv_backoff_ms = backoff_ms cfg (attempt_count s)\<rparr>])"
        using inside below fails by (subst run_orchestrator.simps) simp
      from "1.IH"(2) [OF inside below fails "1.prems"] inside below
      show ?thesis unfolding step by simp
    qed
  qed
qed


lemma run_all_fail_trace:
  assumes "\<forall>p \<in> set providers. \<forall>r k. provider_invoke p r k = ProviderTransportError"
  shows "snd (run_orchestrator cfg providers validate req s made) =
           made @
           (if provider_index s < length providers
            then map (\<lambda>a. \<lparr>inv_provider = provider_index s, inv_level = escalation_level s,
                            inv_attempt = a, inv_backoff_ms = backoff_ms cfg a\<rparr>)
                   [attempt_count s..<attempt_cap cfg] @
                 concat (map (\<lambda>i. map (\<lambda>a. \<lparr>inv_provider = i, inv_level = 0,
                                              inv_attempt = a, inv_backoff_ms = backoff_ms cfg a\<rparr>)
                                     [0..<attempt_cap cfg])
                           [Suc (provider_index s)..<length providers])
            else [])"
  using assms
proof (induction cfg providers validate req s made rule: run_orchestrator.induct)
  case (1 cfg providers validate req s made)
  show ?case
  proof (cases "length providers \<le> provider_index s")
    case True
    then show ?thesis by (subst run_orchestrator.simps) simp
  next
    case inside: False
    show ?thesis
    proof (cases "attempt_cap cfg \<le> attempt_count s")
      case True
      have step: "run_orchestrator cfg providers validate req s made =
                  run_orchestrator cfg providers validate req (next_provider s) made"
        using inside True by (subst run_orchestrator.simps) simp
      have nx: "provider_index (next_provider s) = Suc (provider_index s)"
        "attempt_count (next_provider s) = 0" "escalation_level (next_provider s) = 0"
        by (simp_all add: next_provider_def)
      have none: "[attempt_count s..<attempt_cap cfg] = []" using True by simp
      show ?thesis
      proof (cases "Suc (provider_index s) < length providers")
        case True
        then have "[Suc (provider_index s)..<length providers] =
                   Suc (provider_index s) # [Suc (Suc (provider_index s))..<length providers]"
          by (simp add: upt_conv_Cons)
        with "1.IH"(1) [OF inside \<open>attempt_cap cfg \<le> attempt_count s\<close> "1.prems"] True inside
        show ?thesis unfolding step nx none by simp
      next
        case False
        with "1.IH"(1) [OF inside \<open>attempt_cap cfg \<le> attempt_count s\<close> "1.prems"] inside
        show ?thesis unfolding step nx none by simp
      qed
    next
      case below: False
      from inside have "providers ! provider_index s \<in> set providers" by simp
      with "1.prems" have fails:
        "provider_invoke (providers ! provider_index s)
           (escalate cfg (escalation_level s) req) (length made) = ProviderTransportError"
        by blast
      have step: "run_orchestrator cfg providers validate req s made =
                  run_orchestrator cfg providers validate req
                    (s\<lparr>attempt_count := Suc (attempt_count s)\<rparr>)
                    (made @ [\<lparr>inv_provider = provider_index s, inv_level = escalation_level s,
                               inv_attempt = attempt_count s,
                               inv_backoff_ms = backoff_ms cfg (attempt_count s)\<rparr>])"
        using inside below fails by (subst run_orchestrator.simps) simp
      from below have "[attempt_count s..<attempt_cap cfg] =
                       attempt_count s # [Suc (attempt_count s)..<attempt_cap cfg]"
        by (simp add: upt_conv_Cons)
      with "1.IH"(2) [OF inside below fails "1.prems"] inside
      show ?thesis unfolding step by simp
    qed
  qed
qed

text \<open>
  Claim C4. Given providers that all fail at the transport level, however many there are,
  the Generation Orchestrator signals \<open>GenerationExhaustedError\<close> after exactly
  (number of providers) times (attempt cap) invocations: provider 0 for attempts
  0 .. cap - 1, then provider 1, and so on, every one at escalation level 0. The run is a
  total function, its termination proved for all providers and validators, so it cannot
  hang.
\<close>

theorem orchestrate_exhausts_after_cap_per_provider:
  assumes "\<forall>p \<in> set providers. \<forall>r k. provider_invoke p r k = ProviderTransportError"
  shows "fst (orchestrate cfg providers validate req) = Inl GenerationExhaustedError \<and>
         length (snd (orchestrate cfg providers validate req)) =
           length providers * attempt_cap cfg \<and>
         snd (orchestrate cfg providers validate req) =
           concat (map (\<lambda>i. map (\<lambda>a. \<lparr>inv_provider = i, inv_level = 0,
                                        inv_attempt = a, inv_backoff_ms = backoff_ms cfg a\<rparr>)
                               [0..<attempt_cap cfg])
                     [0..<length providers])"
proof (intro conjI)
  let ?s0 = "\<lparr>provider_index = 0, escalation_level = 0, attempt_count = 0\<rparr>"
  show "fst (orchestrate cfg providers validate req) = Inl GenerationExhaustedError"
    using run_all_fail [OF assms, of cfg validate req ?s0 "[]"] by (simp add: orchestrate_def)
  show "length (snd (orchestrate cfg providers validate req)) =
           length providers * attempt_cap cfg"
  proof (cases "providers = []")
    case True
    with run_all_fail [OF assms, of cfg validate req ?s0 "[]"]
    show ?thesis by (simp add: orchestrate_def)
  next
    case False
    then have "length providers = Suc (length providers - Suc 0)" by simp
    then have "attempt_cap cfg + (length providers - Suc 0) * attempt_cap cfg =
               length providers * attempt_cap cfg"
      by (metis mult_Suc)
    with False run_all_fail [OF assms, of cfg validate req ?s0 "[]"]
    show ?thesis by (simp add: orchestrate_def)
  qed
  show "snd (orchestrate cfg providers validate req) =
           concat (map (\<lambda>i. map (\<lambda>a. \<lparr>inv_provider = i, inv_level = 0,
                                        inv_attempt = a, inv_backoff_ms = backoff_ms cfg a\<rparr>)
                               [0..<attempt_cap cfg])
                     [0..<length providers])"
  proof (cases "providers = []")
    case True
    with run_all_fail_trace [OF assms, of cfg validate req ?s0 "[]"]
    show ?thesis by (simp add: orchestrate_def)
  next
    case False
    then have "[0..<length providers] = 0 # [Suc 0..<length providers]"
      by (simp add: upt_conv_Cons)
    with False run_all_fail_trace [OF assms, of cfg validate req ?s0 "[]"]
    show ?thesis by (simp add: orchestrate_def)
  qed
qed

theorem orchestrate_exhausts_after_cap_per_provider_witness:
  "fst (orchestrate \<lparr>attempt_cap = 3, escalation_ceiling = 2, reduce_scope_above = 2,
                     backoff_base_ms = 500\<rparr> failing_providers accept_all
         \<lparr>request_instructions = fidelity_instructions,
          request_payload = serialize_bundle sample_bundle,
          request_bundle = sample_bundle,
          request_params = \<lparr>temperature_percent = 0, max_tokens = 4096\<rparr>\<rparr>) =
     Inl GenerationExhaustedError \<and>
   length (snd (orchestrate \<lparr>attempt_cap = 3, escalation_ceiling = 2, reduce_scope_above = 2,
                     backoff_base_ms = 500\<rparr> failing_providers accept_all
         \<lparr>request_instructions = fidelity_instructions,
          request_payload = serialize_bundle sample_bundle,
          request_bundle = sample_bundle,
          request_params = \<lparr>temperature_percent = 0, max_tokens = 4096\<rparr>\<rparr>)) = 6"
proof -
  let ?cfg = "\<lparr>attempt_cap = 3, escalation_ceiling = 2, reduce_scope_above = 2,
               backoff_base_ms = 500\<rparr>"
  let ?req = "\<lparr>request_instructions = fidelity_instructions,
               request_payload = serialize_bundle sample_bundle,
               request_bundle = sample_bundle,
               request_params = \<lparr>temperature_percent = 0, max_tokens = 4096\<rparr>\<rparr>"
  have fail: "\<forall>p \<in> set failing_providers. \<forall>r k. provider_invoke p r k = ProviderTransportError"
    by (simp add: failing_providers_def)
  have two: "length failing_providers * attempt_cap ?cfg = 6"
    by (simp add: failing_providers_def)
  note run = orchestrate_exhausts_after_cap_per_provider [OF fail, of ?cfg accept_all ?req]
  from run have a: "fst (orchestrate ?cfg failing_providers accept_all ?req) =
                      Inl GenerationExhaustedError"
    by (rule conjunct1)
  from run have "length (snd (orchestrate ?cfg failing_providers accept_all ?req)) =
           length failing_providers * attempt_cap ?cfg"
    by (rule conjunct1 [OF conjunct2])
  then have b: "length (snd (orchestrate ?cfg failing_providers accept_all ?req)) = 6"
    unfolding two .
  from a b show ?thesis by (rule conjI)
qed

section \<open>Properties of the pipeline\<close>

lemma skeleton_html_nonempty: "skeleton_html s \<noteq> []"
  by (cases s) simp

text \<open>
  Claim C2. If every configured provider raises \<open>ProviderTransportError\<close> on every call,
  then for a page that was captured, consolidated and assembled, the pipeline's terminal
  CloneResult has provenance \<open>fallback\<close>, and its HTML is the Consolidator's skeleton with
  the bundle's stylesheet inlined in a \<open>style\<close> element before it; the skeleton, and so the
  HTML, is never empty.
\<close>

theorem pipeline_falls_back_when_providers_fail:
  assumes "\<forall>p \<in> set providers. \<forall>r k. provider_invoke p r k = ProviderTransportError"
    and "capture rendering = Inr m"
    and "consolidate m = Inr b"
    and "assemble (assembler cfg) b = Inr req"
  shows "pipeline cfg providers validate rendering =
           Inr \<lparr>result_html =
                  ''<style>\<newline>'' @ css_text (bundle_css b) @ ''</style>\<newline>'' @
                  skeleton_html (bundle_skeleton b),
                result_provenance = Fallback,
                result_score = 0,
                result_images = map asset_url (bundle_assets b)\<rparr> \<and>
         skeleton_html (bundle_skeleton b) \<noteq> [] \<and>
         (\<forall>r. pipeline cfg providers validate rendering = Inr r \<longrightarrow> result_html r \<noteq> [])"
proof -
  have "fst (orchestrate (orchestrator cfg) providers validate req) = Inl GenerationExhaustedError"
    using run_all_fail [OF assms(1)] by (simp add: orchestrate_def)
  with assms(2-4) have run: "pipeline cfg providers validate rendering =
           Inr \<lparr>result_html =
                  ''<style>\<newline>'' @ css_text (bundle_css b) @ ''</style>\<newline>'' @
                  skeleton_html (bundle_skeleton b),
                result_provenance = Fallback,
                result_score = 0,
                result_images = map asset_url (bundle_assets b)\<rparr>"
    by (simp add: pipeline_def fallback_html_def)
  then show ?thesis by (simp add: skeleton_html_nonempty)
qed

theorem pipeline_falls_back_when_providers_fail_witness:
  \<open>pipeline sample_config failing_providers accept_all (Inr one_line_page) =
     Inr \<lparr>result_html = ''<style>\<newline>.c0 { color: red; }\<newline></style>\<newline><p class="c0">Hello</p>'',
          result_provenance = Fallback,
          result_score = 0,
          result_images = []\<rparr>\<close>
proof -
  let ?m = "\<lparr>manifest_root = Some (StyleNode ''p'' ''Hello'' [(''color'', ''red'')] [] []),
             manifest_title = ''Hello'', manifest_viewport = (1280, 800),
             manifest_stylesheets = [], manifest_assets = []\<rparr>"
  let ?b = "\<lparr>bundle_css = [\<lparr>rule_class = ''c0'', rule_props = [(''color'', ''red'')]\<rparr>],
             bundle_skeleton = Skeleton ''p'' ''c0'' ''Hello'' [] [],
             bundle_assets = []\<rparr>"
  let ?req = "\<lparr>request_instructions = fidelity_instructions,
               request_payload = serialize_bundle ?b,
               request_bundle = ?b,
               request_params = \<lparr>temperature_percent = 0, max_tokens = 4096\<rparr>\<rparr>"
  have fail: "\<forall>p \<in> set failing_providers. \<forall>r k. provider_invoke p r k = ProviderTransportError"
    by (simp add: failing_providers_def)
  have cap: "capture (Inr one_line_page) = Inr ?m"
    by (simp add: capture_def one_line_page_def significant_def)
  have d: "char_of (48::nat) = CHR ''0''" by code_simp
  have cons: "consolidate ?m = Inr ?b"
    by (simp add: consolidate_def assign_class_def class_name_def d)
  have asm: "assemble (assembler sample_config) ?b = Inr ?req"
    by (simp add: assemble_def truncation_levels_def sample_config_def serialize_bundle_def
          css_text_def)
  from pipeline_falls_back_when_providers_fail [OF fail cap cons asm, of accept_all]
  show ?thesis by (simp add: css_text_def)
qed

section \<open>Properties of the Validator and of a whole run\<close>










section \<open>The caller-visible result\<close>




end
